theory Spec2Isabelle
  imports Complex_Main "HOL-Library.AList" "HOL-Library.Multiset"
begin

section \<open>Values of the host language\<close>

text \<open>
  A TypeScript \<open>number\<close> is an IEEE double. The validators only compare numbers with
  zero and test them for truthiness, so a number is modelled by its sign class: a finite
  real, one of the two infinities, or NaN. Every comparison with NaN is false, and both
  \<open>0\<close> and NaN are falsy.
\<close>

datatype number = NaN | PosInf | NegInf | Fin real

fun truthy_num :: "number \<Rightarrow> bool" where
  "truthy_num NaN = False"
| "truthy_num PosInf = True"
| "truthy_num NegInf = True"
| "truthy_num (Fin r) = (r \<noteq> 0)"

fun le_zero :: "number \<Rightarrow> bool" where
  "le_zero NaN = False"
| "le_zero PosInf = False"
| "le_zero NegInf = True"
| "le_zero (Fin r) = (r \<le> 0)"

fun lt_zero :: "number \<Rightarrow> bool" where
  "lt_zero NaN = False"
| "lt_zero PosInf = False"
| "lt_zero NegInf = True"
| "lt_zero (Fin r) = (r < 0)"

fun gt_zero :: "number \<Rightarrow> bool" where
  "gt_zero NaN = False"
| "gt_zero PosInf = True"
| "gt_zero NegInf = False"
| "gt_zero (Fin r) = (0 < r)"

text \<open>
  \<open>String.prototype.trim\<close> removes white space from both ends. Strings are lists of
  8-bit characters here, so the white space characters are tab, line feed, vertical tab,
  form feed, carriage return, space and the no-break space.
\<close>

definition is_ws :: "char \<Rightarrow> bool" where
  "is_ws c = (c \<in> set [CHR 0x09, CHR 0x0A, CHR 0x0B, CHR 0x0C, CHR 0x0D, CHR 0x20, CHR 0xA0])"

definition trim :: "string \<Rightarrow> string" where
  "trim s = rev (dropWhile is_ws (rev (dropWhile is_ws s)))"

text \<open>
  \<open>!s || s.trim().length === 0\<close> on a string that may be missing: true when the field is
  absent, the empty string, or white space only.
\<close>

definition blank :: "string option \<Rightarrow> bool" where
  "blank v = (case v of None \<Rightarrow> True | Some s \<Rightarrow> s = [] \<or> length (trim s) = 0)"

text \<open>Decimal rendering of an array index inside a template literal.\<close>

definition digit_char :: "nat \<Rightarrow> char" where
  "digit_char d = ''0123456789'' ! d"

fun show_nat :: "nat \<Rightarrow> string" where
  "show_nat n = (if n < 10 then [digit_char n] else show_nat (n div 10) @ [digit_char (n mod 10)])"

declare show_nat.simps [simp del]

text \<open>\<open>Array.prototype.join\<close> on a list of strings.\<close>

fun join :: "string \<Rightarrow> string list \<Rightarrow> string" where
  "join sep [] = []"
| "join sep [x] = x"
| "join sep (x # y # ys) = x @ sep @ join sep (y # ys)"

section \<open>Product validator\<close>

record ValidationResult =
  valid :: bool
  errors :: "string list"

datatype ProductType = Want | Have

text \<open>
  The create payload \<open>Omit<Product, "id" | "createdAt" | "updatedAt">\<close>, restricted to
  the properties \<open>validateProduct\<close> reads. A field is optional when the interface marks
  it so or when the validator tests it for absence; \<open>ptype\<close> is the discriminator
  \<open>type\<close>, \<open>None\<close> when it is neither \<open>"want"\<close> nor \<open>"have"\<close>.
\<close>

record ProductInput =
  name :: "string option"
  brand :: "string option"
  website :: "string option"
  originalPrice :: "number option"
  date :: "string option"
  userId :: "string option"
  ptype :: "ProductType option"
  currentPrice :: "number option"
  targetPrice :: "number option"
  priceBought :: "number option"
  images :: "string list option"

text \<open>
  \<open>isValidUrl\<close> and \<open>isValidDate\<close> wrap the platform's \<open>URL\<close> and \<open>Date\<close> parsers;
  the parsers are parameters of the model. \<open>!s || !ok(s)\<close> on an optional string:
\<close>

definition missing_or_not :: "(string \<Rightarrow> bool) \<Rightarrow> string option \<Rightarrow> bool" where
  "missing_or_not ok v = (case v of None \<Rightarrow> True | Some s \<Rightarrow> s = [] \<or> \<not> ok s)"

text \<open>\<open>!x || x <= 0\<close> on an optional number.\<close>

definition missing_or_le_zero :: "number option \<Rightarrow> bool" where
  "missing_or_le_zero v = (case v of None \<Rightarrow> True | Some x \<Rightarrow> \<not> truthy_num x \<or> le_zero x)"

text \<open>\<open>x && x <= 0\<close> on an optional number: a falsy \<open>x\<close> (absent, 0, NaN) skips the test.\<close>

definition truthy_and_le_zero :: "number option \<Rightarrow> bool" where
  "truthy_and_le_zero v = (case v of None \<Rightarrow> False | Some x \<Rightarrow> truthy_num x \<and> le_zero x)"

text \<open>The \<open>forEach\<close> over the image list; \<open>i\<close> is the index of the head.\<close>

fun image_errors :: "(string \<Rightarrow> bool) \<Rightarrow> nat \<Rightarrow> string list \<Rightarrow> string list" where
  "image_errors isValidUrl i [] = []"
| "image_errors isValidUrl i (url # rest) =
     (if \<not> isValidUrl url then [''Image URL '' @ show_nat (i + 1) @ '' is not a valid URL''] else [])
     @ image_errors isValidUrl (Suc i) rest"

definition type_errors :: "ProductInput \<Rightarrow> string list" where
  "type_errors product =
     (case ptype product of
        Some Want \<Rightarrow>
          (if truthy_and_le_zero (currentPrice product)
           then [''Current price must be greater than 0''] else [])
          @ (if truthy_and_le_zero (targetPrice product)
             then [''Target price must be greater than 0''] else [])
      | Some Have \<Rightarrow>
          (if missing_or_le_zero (priceBought product)
           then [''Price bought must be greater than 0''] else [])
      | None \<Rightarrow> [])"

definition product_errors :: "(string \<Rightarrow> bool) \<Rightarrow> (string \<Rightarrow> bool) \<Rightarrow> ProductInput \<Rightarrow> string list" where
  "product_errors isValidUrl isValidDate product =
     (if blank (name product) then [''Product name is required''] else [])
     @ (if blank (brand product) then [''Brand is required''] else [])
     @ (if missing_or_not isValidUrl (website product) then [''Valid website URL is required''] else [])
     @ (if missing_or_le_zero (originalPrice product)
        then [''Original price must be greater than 0''] else [])
     @ (if missing_or_not isValidDate (date product) then [''Valid date is required''] else [])
     @ (if blank (userId product) then [''User ID is required''] else [])
     @ type_errors product
     @ (case images product of None \<Rightarrow> [] | Some urls \<Rightarrow> image_errors isValidUrl 0 urls)"

definition validateProduct :: "(string \<Rightarrow> bool) \<Rightarrow> (string \<Rightarrow> bool) \<Rightarrow> ProductInput \<Rightarrow> ValidationResult" where
  "validateProduct isValidUrl isValidDate product =
     (let errors = product_errors isValidUrl isValidDate product
      in \<lparr>valid = (length errors = 0), errors = errors\<rparr>)"

text \<open>
  The update payload: every property optional. \<open>None\<close> stands for a property that is
  absent or \<open>undefined\<close> (and, for \<open>currentPrice\<close>, \<open>null\<close>), which are the cases the
  guards \<open>!== undefined\<close> skip. The payload may carry \<open>targetPrice\<close>; no rule of
  \<open>validateProductUpdate\<close> reads it.
\<close>

record ProductUpdateInput =
  upd_name :: "string option"
  upd_website :: "string option"
  upd_originalPrice :: "number option"
  upd_currentPrice :: "number option"
  upd_targetPrice :: "number option"
  upd_priceBought :: "number option"
  upd_date :: "string option"
  upd_images :: "string list option"

definition present_and_le_zero :: "number option \<Rightarrow> bool" where
  "present_and_le_zero v = (case v of None \<Rightarrow> False | Some x \<Rightarrow> le_zero x)"

definition product_update_errors ::
  "(string \<Rightarrow> bool) \<Rightarrow> (string \<Rightarrow> bool) \<Rightarrow> ProductUpdateInput \<Rightarrow> string list" where
  "product_update_errors isValidUrl isValidDate updates =
     (case upd_name updates of None \<Rightarrow> []
      | Some s \<Rightarrow> if blank (Some s) then [''Product name cannot be empty''] else [])
     @ (case upd_website updates of None \<Rightarrow> []
        | Some s \<Rightarrow> if \<not> isValidUrl s then [''Website must be a valid URL''] else [])
     @ (if present_and_le_zero (upd_originalPrice updates)
        then [''Original price must be greater than 0''] else [])
     @ (if present_and_le_zero (upd_currentPrice updates)
        then [''Current price must be greater than 0''] else [])
     @ (if present_and_le_zero (upd_priceBought updates)
        then [''Price bought must be greater than 0''] else [])
     @ (case upd_date updates of None \<Rightarrow> []
        | Some s \<Rightarrow> if \<not> isValidDate s then [''Date must be a valid date''] else [])
     @ (case upd_images updates of None \<Rightarrow> [] | Some urls \<Rightarrow> image_errors isValidUrl 0 urls)"

definition validateProductUpdate ::
  "(string \<Rightarrow> bool) \<Rightarrow> (string \<Rightarrow> bool) \<Rightarrow> ProductUpdateInput \<Rightarrow> ValidationResult" where
  "validateProductUpdate isValidUrl isValidDate updates =
     (let errors = product_update_errors isValidUrl isValidDate updates
      in \<lparr>valid = (length errors = 0), errors = errors\<rparr>)"

section \<open>Receipt validator\<close>

text \<open>
  \<open>ReceiptItem\<close> (fields prefixed \<open>item_\<close>): \<open>productId\<close> and \<open>quantity\<close> are tested for
  absence by the validators, \<open>discountedPrice\<close> is compared with zero unguarded.
\<close>

record ReceiptItem =
  item_id :: string
  item_productId :: "string option"
  item_quantity :: "number option"
  item_discountedPrice :: number

record ReceiptInput =
  receiptNumber :: "string option"
  storeName :: "string option"
  receiptDate :: "string option"
  items :: "ReceiptItem list option"
  totalAmount :: number
  receipt_userId :: "string option"
  receiptImage :: "string option"

text \<open>The \<open>forEach\<close> over the items in \<open>validateReceipt\<close>; \<open>i\<close> is the index of the head.\<close>

fun item_errors :: "nat \<Rightarrow> ReceiptItem list \<Rightarrow> string list" where
  "item_errors i [] = []"
| "item_errors i (item # rest) =
     (if blank (item_productId item)
      then [''Item '' @ show_nat (i + 1) @ '': Product ID is required''] else [])
     @ (if missing_or_le_zero (item_quantity item)
        then [''Item '' @ show_nat (i + 1) @ '': Quantity must be greater than 0''] else [])
     @ (if lt_zero (item_discountedPrice item)
        then [''Item '' @ show_nat (i + 1) @ '': Price cannot be negative''] else [])
     @ item_errors (Suc i) rest"

definition receipt_errors :: "(string \<Rightarrow> bool) \<Rightarrow> (string \<Rightarrow> bool) \<Rightarrow> ReceiptInput \<Rightarrow> string list" where
  "receipt_errors isValidUrl isValidDate receipt =
     (if blank (receiptNumber receipt) then [''Receipt number is required''] else [])
     @ (if blank (storeName receipt) then [''Store name is required''] else [])
     @ (if missing_or_not isValidDate (receiptDate receipt)
        then [''Valid receipt date is required''] else [])
     @ (if (case items receipt of None \<Rightarrow> True | Some xs \<Rightarrow> length xs = 0)
        then [''Receipt must have at least one item''] else [])
     @ (case items receipt of None \<Rightarrow> [] | Some xs \<Rightarrow> item_errors 0 xs)
     @ (if lt_zero (totalAmount receipt) then [''Total amount cannot be negative''] else [])
     @ (if blank (receipt_userId receipt) then [''User ID is required''] else [])
     @ (case receiptImage receipt of None \<Rightarrow> []
        | Some s \<Rightarrow> if s \<noteq> [] \<and> \<not> isValidUrl s
                   then [''Receipt image must be a valid URL''] else [])"

definition validateReceipt :: "(string \<Rightarrow> bool) \<Rightarrow> (string \<Rightarrow> bool) \<Rightarrow> ReceiptInput \<Rightarrow> ValidationResult" where
  "validateReceipt isValidUrl isValidDate receipt =
     (let errors = receipt_errors isValidUrl isValidDate receipt
      in \<lparr>valid = (length errors = 0), errors = errors\<rparr>)"

record ReceiptUpdateInput =
  upd_receiptNumber :: "string option"
  upd_storeName :: "string option"
  upd_receiptDate :: "string option"
  upd_items :: "ReceiptItem list option"
  upd_totalAmount :: "number option"
  upd_receiptImage :: "string option"

text \<open>The \<open>forEach\<close> over the items in \<open>validateReceiptUpdate\<close>.\<close>

fun update_item_errors :: "nat \<Rightarrow> ReceiptItem list \<Rightarrow> string list" where
  "update_item_errors i [] = []"
| "update_item_errors i (item # rest) =
     (if blank (item_productId item)
      then [''Item '' @ show_nat (i + 1) @ '': Product ID is required''] else [])
     @ (if missing_or_le_zero (item_quantity item)
        then [''Item '' @ show_nat (i + 1) @ '': Quantity must be greater than 0''] else [])
     @ update_item_errors (Suc i) rest"

definition receipt_update_errors ::
  "(string \<Rightarrow> bool) \<Rightarrow> (string \<Rightarrow> bool) \<Rightarrow> ReceiptUpdateInput \<Rightarrow> string list" where
  "receipt_update_errors isValidUrl isValidDate updates =
     (case upd_receiptNumber updates of None \<Rightarrow> []
      | Some s \<Rightarrow> if blank (Some s) then [''Receipt number cannot be empty''] else [])
     @ (case upd_storeName updates of None \<Rightarrow> []
        | Some s \<Rightarrow> if blank (Some s) then [''Store name cannot be empty''] else [])
     @ (case upd_receiptDate updates of None \<Rightarrow> []
        | Some s \<Rightarrow> if \<not> isValidDate s then [''Receipt date must be a valid date''] else [])
     @ (case upd_items updates of None \<Rightarrow> []
        | Some xs \<Rightarrow>
            (if length xs = 0 then [''Receipt must have at least one item''] else [])
            @ update_item_errors 0 xs)
     @ (case upd_totalAmount updates of None \<Rightarrow> []
        | Some t \<Rightarrow> if lt_zero t then [''Total amount cannot be negative''] else [])
     @ (case upd_receiptImage updates of None \<Rightarrow> []
        | Some s \<Rightarrow> if s \<noteq> [] \<and> \<not> isValidUrl s
                   then [''Receipt image must be a valid URL''] else [])"

definition validateReceiptUpdate ::
  "(string \<Rightarrow> bool) \<Rightarrow> (string \<Rightarrow> bool) \<Rightarrow> ReceiptUpdateInput \<Rightarrow> ValidationResult" where
  "validateReceiptUpdate isValidUrl isValidDate updates =
     (let errors = receipt_update_errors isValidUrl isValidDate updates
      in \<lparr>valid = (length errors = 0), errors = errors\<rparr>)"

section \<open>Objects, documents and the document store\<close>

text \<open>
  At run time a payload is an object and a stored record is a document: a finite map from
  property names to values. An object may carry properties its declared type does not
  list, and the spread \<open>{...a, k: v}\<close> copies whatever is there.
\<close>

datatype jsval =
    Null
  | Bool bool
  | Num number
  | Str string
  | Arr "jsval list"
  | Obj "string \<Rightarrow> jsval option"

type_synonym obj = "string \<Rightarrow> jsval option"

text \<open>An \<open>Error\<close> object: the optional \<open>code\<close> the store's failures carry, and the message.\<close>

datatype error = Error (code: "string option") (message: string)

text \<open>
  The store as the repository sees it: whether \<open>isFirebaseInitialized() && db\<close> holds, the
  failure the backend reports to a call (if any), the documents of each collection in the
  order the backend lists them, and the calls made so far.
\<close>

datatype call =
    GetDoc string string
  | GetDocs string
  | AddDoc string
  | UpdateDoc string string
  | DeleteDoc string string

record backend =
  initialized :: bool
  fault :: "error option"
  docs :: "string \<Rightarrow> (string \<times> obj) list"
  calls :: "call list"

datatype filter = WhereEq string jsval | ArrayContainsAny string "jsval list"

text \<open>
  \<open>where(f, "==", v)\<close> selects the documents whose field \<open>f\<close> equals \<open>v\<close>;
  \<open>where(f, "array-contains-any", vs)\<close> selects those whose field \<open>f\<close> is an array with
  an element equal to one of \<open>vs\<close>. Equality is equality of whole values: two maps are
  equal when they have the same keys with equal values.
\<close>

fun matches :: "filter \<Rightarrow> obj \<Rightarrow> bool" where
  "matches (WhereEq f v) d = (d f = Some v)"
| "matches (ArrayContainsAny f vs) d =
     (case d f of Some (Arr xs) \<Rightarrow> list_ex (\<lambda>v. v \<in> set xs) vs | _ \<Rightarrow> False)"

definition getDoc :: "backend \<Rightarrow> string \<Rightarrow> string \<Rightarrow> (error + obj option) \<times> backend" where
  "getDoc be coll docId =
     (let be' = be\<lparr>calls := calls be @ [GetDoc coll docId]\<rparr>
      in case fault be of
           Some e \<Rightarrow> (Inl e, be')
         | None \<Rightarrow> (Inr (map_of (docs be coll) docId), be'))"

definition getDocs :: "backend \<Rightarrow> string \<Rightarrow> filter list \<Rightarrow> (error + (string \<times> obj) list) \<times> backend" where
  "getDocs be coll q =
     (let be' = be\<lparr>calls := calls be @ [GetDocs coll]\<rparr>
      in case fault be of
           Some e \<Rightarrow> (Inl e, be')
         | None \<Rightarrow> (Inr (filter (\<lambda>(docId, d). list_all (\<lambda>f. matches f d) q) (docs be coll)), be'))"

text \<open>\<open>addDoc\<close> stores the data under the identifier \<open>newId\<close> the store generates.\<close>

definition addDoc :: "string \<Rightarrow> backend \<Rightarrow> string \<Rightarrow> obj \<Rightarrow> (error + string) \<times> backend" where
  "addDoc newId be coll data =
     (let be' = be\<lparr>calls := calls be @ [AddDoc coll]\<rparr>
      in case fault be of
           Some e \<Rightarrow> (Inl e, be')
         | None \<Rightarrow> (Inr newId, be'\<lparr>docs := (docs be)(coll := docs be coll @ [(newId, data)])\<rparr>))"

text \<open>
  \<open>updateDoc\<close> fails when the document does not exist; otherwise it overwrites the fields
  named in the data and leaves every other field of the document as it was.
\<close>

definition updateDoc :: "backend \<Rightarrow> string \<Rightarrow> string \<Rightarrow> obj \<Rightarrow> (error + unit) \<times> backend" where
  "updateDoc be coll docId data =
     (let be' = be\<lparr>calls := calls be @ [UpdateDoc coll docId]\<rparr>
      in case fault be of
           Some e \<Rightarrow> (Inl e, be')
         | None \<Rightarrow>
             (case map_of (docs be coll) docId of
                None \<Rightarrow> (Inl (Error (Some ''not-found'') ''No document to update''), be')
              | Some d \<Rightarrow>
                  (Inr (), be'\<lparr>docs := (docs be)(coll := AList.update docId (d ++ data) (docs be coll))\<rparr>)))"

definition deleteDoc :: "backend \<Rightarrow> string \<Rightarrow> string \<Rightarrow> (error + unit) \<times> backend" where
  "deleteDoc be coll docId =
     (let be' = be\<lparr>calls := calls be @ [DeleteDoc coll docId]\<rparr>
      in case fault be of
           Some e \<Rightarrow> (Inl e, be')
         | None \<Rightarrow> (Inr (), be'\<lparr>docs := (docs be)(coll := AList.delete docId (docs be coll))\<rparr>))"

section \<open>Product repository\<close>

definition PRODUCTS_COLLECTION :: string where
  "PRODUCTS_COLLECTION = ''products''"

definition not_initialized :: error where
  "not_initialized =
     Error None ''Firestore database not initialized. Please check your Firebase configuration.''"

definition type_name :: "ProductType \<Rightarrow> string" where
  "type_name t = (case t of Want \<Rightarrow> ''want'' | Have \<Rightarrow> ''have'')"

text \<open>\<open>{ id: doc.id, ...doc.data() }\<close>\<close>

definition with_id :: "string \<Rightarrow> obj \<Rightarrow> obj" where
  "with_id docId d = (Map.empty(''id'' \<mapsto> Str docId)) ++ d"

text \<open>\<open>a.createdAt || ""\<close>, the property read at its declared type \<open>string\<close>.\<close>

definition createdAt_or_empty :: "obj \<Rightarrow> string" where
  "createdAt_or_empty a = (case a ''createdAt'' of Some (Str s) \<Rightarrow> s | _ \<Rightarrow> [])"

text \<open>
  The comparator handed to \<open>sort\<close>. \<open>localeCompare\<close> is the platform's collation, a
  parameter: negative when its first argument sorts before the second.
\<close>

definition compareCreated :: "(string \<Rightarrow> string \<Rightarrow> int) \<Rightarrow> obj \<Rightarrow> obj \<Rightarrow> int" where
  "compareCreated localeCompare a b =
     (let aDate = createdAt_or_empty a; bDate = createdAt_or_empty b
      in if aDate = [] \<and> bDate = [] then 0
         else if aDate = [] then 1
         else if bDate = [] then - 1
         else localeCompare bDate aDate)"

text \<open>
  \<open>Array.prototype.sort\<close> is a stable sort by the comparator: an element is placed before
  the first element it does not sort after.
\<close>

fun insert_by :: "('a \<Rightarrow> 'a \<Rightarrow> int) \<Rightarrow> 'a \<Rightarrow> 'a list \<Rightarrow> 'a list" where
  "insert_by cmp x [] = [x]"
| "insert_by cmp x (y # ys) = (if cmp x y \<le> 0 then x # y # ys else y # insert_by cmp x ys)"

definition sort_by :: "('a \<Rightarrow> 'a \<Rightarrow> int) \<Rightarrow> 'a list \<Rightarrow> 'a list" where
  "sort_by cmp xs = foldr (insert_by cmp) xs []"

text \<open>The body of the \<open>try\<close> block of \<open>getProducts\<close>.\<close>

definition getProducts_try ::
  "(string \<Rightarrow> string \<Rightarrow> int) \<Rightarrow> backend \<Rightarrow> string \<Rightarrow> ProductType option \<Rightarrow> (error + obj list) \<times> backend" where
  "getProducts_try localeCompare be uid type =
     (if \<not> initialized be then (Inl not_initialized, be)
      else
        let q = [WhereEq ''userId'' (Str uid)]
                @ (case type of None \<Rightarrow> [] | Some t \<Rightarrow> [WhereEq ''type'' (Str (type_name t))])
        in case getDocs be PRODUCTS_COLLECTION q of
             (Inl e, be') \<Rightarrow> (Inl e, be')
           | (Inr snapshot, be') \<Rightarrow>
               (let products = map (\<lambda>(docId, d). with_id docId d) snapshot
                in (Inr (sort_by (compareCreated localeCompare) products), be')))"

text \<open>The \<open>catch\<close> block returns the empty list for the three listed codes and for every other error.\<close>

definition getProducts ::
  "(string \<Rightarrow> string \<Rightarrow> int) \<Rightarrow> backend \<Rightarrow> string \<Rightarrow> ProductType option \<Rightarrow> obj list \<times> backend" where
  "getProducts localeCompare be uid type =
     (case getProducts_try localeCompare be uid type of
        (Inr sortedProducts, be') \<Rightarrow> (sortedProducts, be')
      | (Inl e, be') \<Rightarrow>
          (if code e = Some ''failed-precondition'' \<or> code e = Some ''unavailable''
              \<or> code e = Some ''permission-denied''
           then ([], be')
           else ([], be')))"

definition getProduct :: "backend \<Rightarrow> string \<Rightarrow> (error + obj option) \<times> backend" where
  "getProduct be productId =
     (if \<not> initialized be then (Inl not_initialized, be)
      else case getDoc be PRODUCTS_COLLECTION productId of
             (Inl e, be') \<Rightarrow> (Inl e, be')
           | (Inr None, be') \<Rightarrow> (Inr None, be')
           | (Inr (Some d), be') \<Rightarrow> (Inr (Some (with_id productId d)), be'))"

text \<open>\<open>now\<close> is the reading of the clock, \<open>new Date().toISOString()\<close>.\<close>

definition createProduct :: "string \<Rightarrow> string \<Rightarrow> backend \<Rightarrow> obj \<Rightarrow> (error + string) \<times> backend" where
  "createProduct now newId be product =
     (if \<not> initialized be then (Inl not_initialized, be)
      else
        let productData = product(''createdAt'' \<mapsto> Str now, ''updatedAt'' \<mapsto> Str now)
        in addDoc newId be PRODUCTS_COLLECTION productData)"

definition updateProduct :: "string \<Rightarrow> backend \<Rightarrow> string \<Rightarrow> obj \<Rightarrow> (error + unit) \<times> backend" where
  "updateProduct now be productId updates =
     (if \<not> initialized be then (Inl not_initialized, be)
      else updateDoc be PRODUCTS_COLLECTION productId (updates(''updatedAt'' \<mapsto> Str now)))"

definition deleteProduct :: "backend \<Rightarrow> string \<Rightarrow> (error + unit) \<times> backend" where
  "deleteProduct be productId =
     (if \<not> initialized be then (Inl not_initialized, be)
      else deleteDoc be PRODUCTS_COLLECTION productId)"

text \<open>
  \<open>product.priceHistory || []\<close>, the property read at its declared type (an array, or
  absent).
\<close>

definition priceHistory_or_empty :: "obj \<Rightarrow> jsval list" where
  "priceHistory_or_empty product = (case product ''priceHistory'' of Some (Arr xs) \<Rightarrow> xs | _ \<Rightarrow> [])"

text \<open>
  \<open>addPriceHistory\<close> reads the clock twice: \<open>now\<close> dates the new entry, \<open>now'\<close> is the
  reading inside \<open>updateProduct\<close>.
\<close>

definition addPriceHistory ::
  "string \<Rightarrow> string \<Rightarrow> backend \<Rightarrow> string \<Rightarrow> number \<Rightarrow> string \<Rightarrow> (error + unit) \<times> backend" where
  "addPriceHistory now now' be productId price site =
     (case getProduct be productId of
        (Inl e, be') \<Rightarrow> (Inl e, be')
      | (Inr None, be') \<Rightarrow> (Inl (Error None ''Product not found''), be')
      | (Inr (Some product), be') \<Rightarrow>
          (let priceHistory = priceHistory_or_empty product;
               newEntry = Obj (Map.empty(''price'' \<mapsto> Num price, ''date'' \<mapsto> Str now,
                                         ''website'' \<mapsto> Str site));
               updates = (Map.empty(''priceHistory'' \<mapsto> Arr (priceHistory @ [newEntry])))
                         ++ (if product ''type'' = Some (Str ''want'')
                             then Map.empty(''currentPrice'' \<mapsto> Num price) else Map.empty)
           in updateProduct now' be' productId updates))"

section \<open>Receipt repository\<close>

definition RECEIPTS_COLLECTION :: string where
  "RECEIPTS_COLLECTION = ''receipts''"

text \<open>\<open>receipt.items?.some((item) => item.productId === productId) ?? false\<close>\<close>

definition item_is_for :: "string \<Rightarrow> jsval \<Rightarrow> bool" where
  "item_is_for productId item =
     (case item of Obj m \<Rightarrow> m ''productId'' = Some (Str productId) | _ \<Rightarrow> False)"

definition has_item_for :: "string \<Rightarrow> obj \<Rightarrow> bool" where
  "has_item_for productId receipt =
     (case receipt ''items'' of Some (Arr xs) \<Rightarrow> list_ex (item_is_for productId) xs | _ \<Rightarrow> False)"

text \<open>
  The query asks the store for the receipts whose \<open>items\<close> array contains the object
  \<open>{ productId }\<close>; the snapshot is then filtered on the client. Every failure inside the
  \<open>try\<close> block, the initialisation check included, ends in the empty list.
\<close>

definition getReceiptsByProduct :: "backend \<Rightarrow> string \<Rightarrow> obj list \<times> backend" where
  "getReceiptsByProduct be productId =
     (if \<not> initialized be then ([], be)
      else
        case getDocs be RECEIPTS_COLLECTION
               [ArrayContainsAny ''items'' [Obj (Map.empty(''productId'' \<mapsto> Str productId))]] of
          (Inl e, be') \<Rightarrow> ([], be')
        | (Inr snapshot, be') \<Rightarrow>
            (let receipts = map (\<lambda>(docId, d). with_id docId d) snapshot
             in (filter (has_item_for productId) receipts, be')))"

section \<open>Product service\<close>

text \<open>
  The service hands the same object to the validator and to the repository. The validator
  reads the object at its declared type: a property holding a value of another type is
  outside that type and is read as absent.
\<close>

definition str_prop :: "obj \<Rightarrow> string \<Rightarrow> string option" where
  "str_prop ob k = (case ob k of Some (Str s) \<Rightarrow> Some s | _ \<Rightarrow> None)"

definition num_prop :: "obj \<Rightarrow> string \<Rightarrow> number option" where
  "num_prop ob k = (case ob k of Some (Num x) \<Rightarrow> Some x | _ \<Rightarrow> None)"

definition strs_prop :: "obj \<Rightarrow> string \<Rightarrow> string list option" where
  "strs_prop ob k =
     (case ob k of
        Some (Arr vs) \<Rightarrow> Some (map (\<lambda>v. case v of Str s \<Rightarrow> s | _ \<Rightarrow> []) vs)
      | _ \<Rightarrow> None)"

definition type_prop :: "obj \<Rightarrow> ProductType option" where
  "type_prop ob =
     (if ob ''type'' = Some (Str ''want'') then Some Want
      else if ob ''type'' = Some (Str ''have'') then Some Have
      else None)"

definition asProductInput :: "obj \<Rightarrow> ProductInput" where
  "asProductInput ob =
     \<lparr>name = str_prop ob ''name'', brand = str_prop ob ''brand'',
      website = str_prop ob ''website'', originalPrice = num_prop ob ''originalPrice'',
      date = str_prop ob ''date'', userId = str_prop ob ''userId'', ptype = type_prop ob,
      currentPrice = num_prop ob ''currentPrice'', targetPrice = num_prop ob ''targetPrice'',
      priceBought = num_prop ob ''priceBought'', images = strs_prop ob ''images''\<rparr>"

definition asProductUpdateInput :: "obj \<Rightarrow> ProductUpdateInput" where
  "asProductUpdateInput ob =
     \<lparr>upd_name = str_prop ob ''name'', upd_website = str_prop ob ''website'',
      upd_originalPrice = num_prop ob ''originalPrice'',
      upd_currentPrice = num_prop ob ''currentPrice'',
      upd_targetPrice = num_prop ob ''targetPrice'',
      upd_priceBought = num_prop ob ''priceBought'',
      upd_date = str_prop ob ''date'', upd_images = strs_prop ob ''images''\<rparr>"

definition validation_failed :: "ValidationResult \<Rightarrow> error" where
  "validation_failed validation =
     Error None (''Validation failed: '' @ join '', '' (errors validation))"

definition ProductService_createProduct ::
  "(string \<Rightarrow> bool) \<Rightarrow> (string \<Rightarrow> bool) \<Rightarrow> string \<Rightarrow> string \<Rightarrow> backend \<Rightarrow> obj
     \<Rightarrow> (error + string) \<times> backend" where
  "ProductService_createProduct isValidUrl isValidDate now newId be productData =
     (let validation = validateProduct isValidUrl isValidDate (asProductInput productData)
      in if \<not> valid validation then (Inl (validation_failed validation), be)
         else case createProduct now newId be productData of
                (Inl e, be') \<Rightarrow> (Inl (Error None (''Failed to create product: '' @ message e)), be')
              | (Inr newProductId, be') \<Rightarrow> (Inr newProductId, be'))"


text \<open>
  \<open>ProductService.addPriceHistory(productId, price, date, storeName?, notes?)\<close>; the
  \<open>date\<close> and \<open>notes\<close> arguments are not used by the body, and \<open>storeArg\<close> is the
  argument \<open>storeName\<close>.
\<close>

definition ProductService_addPriceHistory ::
  "string \<Rightarrow> string \<Rightarrow> backend \<Rightarrow> string \<Rightarrow> number \<Rightarrow> string \<Rightarrow> string option \<Rightarrow> string option
     \<Rightarrow> (error + unit) \<times> backend" where
  "ProductService_addPriceHistory now now' be productId price dateArg storeArg notesArg =
     (if productId = [] then (Inl (Error None ''Valid productId is required''), be)
      else if le_zero price then (Inl (Error None ''Price must be greater than 0''), be)
      else
        let label = (case storeArg of None \<Rightarrow> ''Unknown Store''
                     | Some s \<Rightarrow> if s = [] then ''Unknown Store'' else s)
        in case addPriceHistory now now' be productId price label of
             (Inl e, be') \<Rightarrow> (Inl (Error None (''Failed to add price history: '' @ message e)), be')
           | (Inr u, be') \<Rightarrow> (Inr u, be'))"

section \<open>Product lookup\<close>

text \<open>
  The external product database. A \<open>fetch\<close> either rejects (a network failure) or yields a
  response with its \<open>ok\<close> flag, its status and its body; the body is \<open>None\<close> when
  \<open>response.json()\<close> rejects. Every property of the body may be absent.
\<close>

record api_offer =
  offer_link :: "string option"

record api_item =
  api_title :: "string option"
  api_description :: "string option"
  api_brand :: "string option"
  api_category :: "string option"
  api_images :: "string list option"
  api_lowest_recorded_price :: "number option"
  api_highest_recorded_price :: "number option"
  api_offers :: "api_offer list option"
  api_specs :: "(string \<times> string) list option"

record api_data =
  api_code :: "string option"
  api_items :: "api_item list option"

datatype fetch_result = NetworkError | Response bool nat "api_data option"

record ProductLookupResult =
  lr_name :: "string option"
  lr_brand :: "string option"
  lr_description :: "string option"
  lr_category :: "string option"
  lr_images :: "string list option"
  lr_price :: "number option"
  lr_website :: "string option"
  lr_specifications :: "(string \<times> string) list option"

text \<open>\<open>a || b\<close> on optional strings and on optional numbers.\<close>

definition str_or :: "string option \<Rightarrow> string option \<Rightarrow> string option" where
  "str_or a b = (case a of None \<Rightarrow> b | Some s \<Rightarrow> if s = [] then b else Some s)"

definition num_or :: "number option \<Rightarrow> number option \<Rightarrow> number option" where
  "num_or a b = (case a of None \<Rightarrow> b | Some x \<Rightarrow> if truthy_num x then Some x else b)"

definition item_result :: "api_item \<Rightarrow> ProductLookupResult" where
  "item_result item =
     \<lparr>lr_name = str_or (api_title item) (api_description item),
      lr_brand = api_brand item,
      lr_description = api_description item,
      lr_category = api_category item,
      lr_images = (case api_images item of None \<Rightarrow> None
                   | Some xs \<Rightarrow> if length xs > 0 then Some xs else None),
      lr_price = num_or (api_lowest_recorded_price item) (api_highest_recorded_price item),
      lr_website = (case api_offers item of None \<Rightarrow> None
                    | Some [] \<Rightarrow> None
                    | Some (offer # rest) \<Rightarrow> offer_link offer),
      lr_specifications = api_specs item\<rparr>"

text \<open>What both lookups do with the outcome of their \<open>fetch\<close>, \<open>catch\<close> block included.\<close>

definition read_response :: "fetch_result \<Rightarrow> ProductLookupResult option" where
  "read_response r =
     (case r of
        NetworkError \<Rightarrow> None
      | Response ok status body \<Rightarrow>
          if \<not> ok then None
          else (case body of
                  None \<Rightarrow> None
                | Some data \<Rightarrow>
                    (case api_items data of
                       Some (item # rest) \<Rightarrow>
                         if api_code data = Some ''OK'' then Some (item_result item) else None
                     | _ \<Rightarrow> None)))"

definition barcode_url :: "(string \<Rightarrow> string) \<Rightarrow> string \<Rightarrow> string" where
  "barcode_url encodeURIComponent barcode =
     ''https://api.upcitemdb.com/prod/trial/lookup?upc='' @ encodeURIComponent barcode"

definition search_url :: "(string \<Rightarrow> string) \<Rightarrow> string \<Rightarrow> string" where
  "search_url encodeURIComponent productName =
     ''https://api.upcitemdb.com/prod/trial/search?s='' @ encodeURIComponent productName
     @ ''&match_mode=0&type=product''"

text \<open>
  The lookups thread the list of URLs requested so far, so that the order of the external
  calls can be read off the result.
\<close>

definition lookupByBarcode ::
  "(string \<Rightarrow> fetch_result) \<Rightarrow> (string \<Rightarrow> string) \<Rightarrow> string list \<Rightarrow> string
     \<Rightarrow> ProductLookupResult option \<times> string list" where
  "lookupByBarcode fetch encodeURIComponent requests barcode =
     (let url = barcode_url encodeURIComponent barcode
      in (read_response (fetch url), requests @ [url]))"

definition searchProductByName ::
  "(string \<Rightarrow> fetch_result) \<Rightarrow> (string \<Rightarrow> string) \<Rightarrow> string list \<Rightarrow> string
     \<Rightarrow> ProductLookupResult option \<times> string list" where
  "searchProductByName fetch encodeURIComponent requests productName =
     (let url = search_url encodeURIComponent productName
      in (read_response (fetch url), requests @ [url]))"

text \<open>\<open>/^\d+$/.test(s)\<close>: one or more characters, all of them among \<open>0\<close> to \<open>9\<close>.\<close>

definition is_digit :: "char \<Rightarrow> bool" where
  "is_digit c = (c \<in> set ''0123456789'')"

definition all_digits :: "string \<Rightarrow> bool" where
  "all_digits s = (s \<noteq> [] \<and> list_all is_digit s)"

definition lookupProduct ::
  "(string \<Rightarrow> fetch_result) \<Rightarrow> (string \<Rightarrow> string) \<Rightarrow> string list \<Rightarrow> string
     \<Rightarrow> ProductLookupResult option \<times> string list" where
  "lookupProduct fetch encodeURIComponent requests query =
     (if blank (Some query) then (None, requests)
      else
        let (barcodeResult, requests') =
              (if all_digits (trim query)
               then lookupByBarcode fetch encodeURIComponent requests (trim query)
               else (None, requests))
        in case barcodeResult of
             Some r \<Rightarrow> (Some r, requests')
           | None \<Rightarrow> searchProductByName fetch encodeURIComponent requests' (trim query))"

section \<open>Orderings and queries used in the statements\<close>

text \<open>
  The creation timestamp a stored record carries, read off the document itself: \<open>None\<close>
  when the record has no \<open>createdAt\<close> or an empty one.
\<close>

definition timestamp_of :: "obj \<Rightarrow> string option" where
  "timestamp_of d =
     (case d ''createdAt'' of Some (Str s) \<Rightarrow> if s = [] then None else Some s | _ \<Rightarrow> None)"

text \<open>
  \<open>sorts_before a b\<close>: a product \<open>a\<close> may stand before \<open>b\<close> in a newest-first listing,
  because \<open>b\<close> has no creation timestamp, or because both have one and the timestamp of
  \<open>b\<close> does not sort after that of \<open>a\<close>.
\<close>

definition sorts_before :: "(string \<Rightarrow> string \<Rightarrow> int) \<Rightarrow> obj \<Rightarrow> obj \<Rightarrow> bool" where
  "sorts_before localeCompare a b =
     (case timestamp_of b of
        None \<Rightarrow> True
      | Some t \<Rightarrow> (case timestamp_of a of None \<Rightarrow> False | Some s \<Rightarrow> localeCompare t s \<le> 0))"

text \<open>
  The rule set of \<open>validateProduct\<close> as the specification words it (section 4.1), with
  "non-empty" read as "not blank": some declared rule is violated.
\<close>

definition positive_if_present :: "number option \<Rightarrow> bool" where
  "positive_if_present v = (case v of None \<Rightarrow> True | Some x \<Rightarrow> gt_zero x)"

definition present_and_positive :: "number option \<Rightarrow> bool" where
  "present_and_positive v = (case v of None \<Rightarrow> False | Some x \<Rightarrow> gt_zero x)"

definition present_and_ok :: "(string \<Rightarrow> bool) \<Rightarrow> string option \<Rightarrow> bool" where
  "present_and_ok ok v = (case v of None \<Rightarrow> False | Some s \<Rightarrow> ok s)"

definition declared_rule_violated ::
  "(string \<Rightarrow> bool) \<Rightarrow> (string \<Rightarrow> bool) \<Rightarrow> ProductInput \<Rightarrow> bool" where
  "declared_rule_violated isValidUrl isValidDate product =
     (blank (name product)
      \<or> blank (brand product)
      \<or> \<not> present_and_ok isValidUrl (website product)
      \<or> \<not> present_and_positive (originalPrice product)
      \<or> \<not> present_and_ok isValidDate (date product)
      \<or> blank (userId product)
      \<or> (ptype product = Some Want
          \<and> (\<not> positive_if_present (currentPrice product)
              \<or> \<not> positive_if_present (targetPrice product)))
      \<or> (ptype product = Some Have \<and> \<not> present_and_positive (priceBought product))
      \<or> (case images product of None \<Rightarrow> False | Some urls \<Rightarrow> \<not> list_all isValidUrl urls))"

text \<open>The documents the query of \<open>getProducts\<close> selects.\<close>

definition products_query :: "string \<Rightarrow> ProductType option \<Rightarrow> obj \<Rightarrow> bool" where
  "products_query uid type d =
     (d ''userId'' = Some (Str uid)
      \<and> (case type of None \<Rightarrow> True | Some t \<Rightarrow> d ''type'' = Some (Str (type_name t))))"

text \<open>A field of a stored document.\<close>

definition stored_field :: "backend \<Rightarrow> string \<Rightarrow> string \<Rightarrow> string \<Rightarrow> jsval option" where
  "stored_field be coll docId k =
     (case map_of (docs be coll) docId of None \<Rightarrow> None | Some d \<Rightarrow> d k)"

section \<open>Sample data\<close>

text \<open>
  Instances of the parameters and a small store, used where a statement is evaluated at a
  concrete input: parsers that accept every string, a collation that compares strings
  character by character (the order of ISO timestamps), two products of user \<open>alice\<close>
  (a "want" product with a price history of two entries, a "have" product with none)
  and three receipts whose item lists overlap (\<open>r1\<close>, \<open>r2\<close>) and are disjoint (\<open>r3\<close>).
\<close>

definition accepts_all :: "string \<Rightarrow> bool" where
  "accepts_all s = True"

fun compare_units :: "string \<Rightarrow> string \<Rightarrow> int" where
  "compare_units [] [] = 0"
| "compare_units [] (y # ys) = - 1"
| "compare_units (x # xs) [] = 1"
| "compare_units (x # xs) (y # ys) =
     (if x = y then compare_units xs ys
      else if (of_char x :: nat) < of_char y then - 1 else 1)"

definition sample_entry :: "number \<Rightarrow> string \<Rightarrow> string \<Rightarrow> jsval" where
  "sample_entry price observed site =
     Obj (Map.empty(''price'' \<mapsto> Num price, ''date'' \<mapsto> Str observed,
                    ''website'' \<mapsto> Str site))"

definition sample_want :: obj where
  "sample_want =
     Map.empty(''name'' \<mapsto> Str ''iPad Pro'', ''brand'' \<mapsto> Str ''Apple'',
               ''website'' \<mapsto> Str ''https://apple.com'', ''originalPrice'' \<mapsto> Num (Fin 999.99),
               ''date'' \<mapsto> Str ''2024-01-15'', ''userId'' \<mapsto> Str ''alice'',
               ''type'' \<mapsto> Str ''want'', ''currentPrice'' \<mapsto> Num (Fin 949),
               ''priceHistory'' \<mapsto>
                 Arr [sample_entry (Fin 999.99) ''2024-01-15T10:00:00.000Z'' ''Apple'',
                      sample_entry (Fin 949) ''2024-02-10T09:00:00.000Z'' ''Currys''],
               ''createdAt'' \<mapsto> Str ''2024-01-15T10:00:00.000Z'',
               ''updatedAt'' \<mapsto> Str ''2024-01-15T10:00:00.000Z'')"

definition sample_have :: obj where
  "sample_have =
     Map.empty(''name'' \<mapsto> Str ''MacBook Air'', ''brand'' \<mapsto> Str ''Apple'',
               ''website'' \<mapsto> Str ''https://apple.com'', ''originalPrice'' \<mapsto> Num (Fin 999),
               ''date'' \<mapsto> Str ''2024-02-01'', ''userId'' \<mapsto> Str ''alice'',
               ''type'' \<mapsto> Str ''have'', ''priceBought'' \<mapsto> Num (Fin 899.99),
               ''createdAt'' \<mapsto> Str ''2024-02-01T08:30:00.000Z'',
               ''updatedAt'' \<mapsto> Str ''2024-02-01T08:30:00.000Z'')"

definition sample_item :: "string \<Rightarrow> string \<Rightarrow> jsval" where
  "sample_item itemId pid =
     Obj (Map.empty(''id'' \<mapsto> Str itemId, ''productId'' \<mapsto> Str pid,
                    ''quantity'' \<mapsto> Num (Fin 1), ''discountedPrice'' \<mapsto> Num (Fin 10)))"

definition sample_receipt :: "string \<Rightarrow> jsval list \<Rightarrow> obj" where
  "sample_receipt number its =
     Map.empty(''receiptNumber'' \<mapsto> Str number, ''storeName'' \<mapsto> Str ''Store'',
               ''receiptDate'' \<mapsto> Str ''2024-01-15'', ''items'' \<mapsto> Arr its,
               ''totalAmount'' \<mapsto> Num (Fin 10), ''userId'' \<mapsto> Str ''alice'')"

definition sample_store :: backend where
  "sample_store =
     \<lparr>initialized = True, fault = None,
      docs = (\<lambda>c. [])
        (''products'' := [(''p1'', sample_want), (''p2'', sample_have)],
         ''receipts'' :=
           [(''r1'', sample_receipt ''R-1'' [sample_item ''1'' ''p1'']),
            (''r2'', sample_receipt ''R-2'' [sample_item ''1'' ''p1'', sample_item ''2'' ''p2'']),
            (''r3'', sample_receipt ''R-3'' [sample_item ''1'' ''p3''])]),
      calls = []\<rparr>"

text \<open>A response of the product database with one item, and a database that knows one barcode.\<close>

definition sample_response :: fetch_result where
  "sample_response =
     Response True 200
       (Some \<lparr>api_code = Some ''OK'',
              api_items = Some [\<lparr>api_title = Some ''iPad Pro'', api_description = None,
                                 api_brand = Some ''Apple'', api_category = None,
                                 api_images = None, api_lowest_recorded_price = None,
                                 api_highest_recorded_price = None, api_offers = None,
                                 api_specs = None\<rparr>]\<rparr>)"

definition sample_fetch :: "string \<Rightarrow> fetch_result" where
  "sample_fetch url =
     (if url = ''https://api.upcitemdb.com/prod/trial/lookup?upc=0123456789012''
      then sample_response else NetworkError)"

definition plain :: "string \<Rightarrow> string" where
  "plain s = s"


section \<open>Properties of the validators\<close>

lemmas validator_defs =
  validateProduct_def product_errors_def type_errors_def blank_def trim_def is_ws_def
  missing_or_not_def missing_or_le_zero_def truthy_and_le_zero_def
  validateProductUpdate_def product_update_errors_def present_and_le_zero_def
  validateReceipt_def receipt_errors_def validateReceiptUpdate_def receipt_update_errors_def

text \<open>
  C1. The claim: a price field that is present and zero or negative makes both
  \<open>validateProduct\<close> and \<open>validateProductUpdate\<close> reject the payload, a "want" create
  payload with \<open>currentPrice = 0\<close> in particular. The code tests the two "want" prices
  with \<open>x && x <= 0\<close>, which skips a zero, and \<open>validateProductUpdate\<close> has no rule for
  \<open>targetPrice\<close>: a "want" create payload with \<open>currentPrice = 0\<close> is accepted, and so is
  an update with \<open>targetPrice = -5\<close>, while an update with \<open>currentPrice = 0\<close> is
  rejected.
\<close>

theorem validateProduct_accepts_zero_currentPrice:
  "validateProduct accepts_all accepts_all
     \<lparr>name = Some ''iPad Pro'', brand = Some ''Apple'', website = Some ''https://apple.com'',
      originalPrice = Some (Fin 999.99), date = Some ''2024-01-15'', userId = Some ''u1'',
      ptype = Some Want, currentPrice = Some (Fin 0), targetPrice = None,
      priceBought = None, images = None\<rparr>
   = \<lparr>valid = True, errors = []\<rparr>
   \<and> validateProductUpdate accepts_all accepts_all
       \<lparr>upd_name = None, upd_website = None, upd_originalPrice = None, upd_currentPrice = None,
        upd_targetPrice = Some (Fin (- 5)), upd_priceBought = None, upd_date = None,
        upd_images = None\<rparr>
     = \<lparr>valid = True, errors = []\<rparr>
   \<and> validateProductUpdate accepts_all accepts_all
       \<lparr>upd_name = None, upd_website = None, upd_originalPrice = None,
        upd_currentPrice = Some (Fin 0),
        upd_targetPrice = None, upd_priceBought = None, upd_date = None,
        upd_images = None\<rparr>
     = \<lparr>valid = False, errors = [''Current price must be greater than 0'']\<rparr>"
  by (simp add: validator_defs accepts_all_def)

text \<open>
  C2. The claim: \<open>validateProduct\<close> returns \<open>valid = false\<close> exactly when a declared rule
  is violated. A "want" payload with \<open>targetPrice = 0\<close> violates the rule
  "targetPrice, if present, is greater than 0", and the code returns \<open>valid = true\<close>
  with no error.
\<close>

theorem validateProduct_valid_despite_zero_targetPrice:
  "validateProduct accepts_all accepts_all
     \<lparr>name = Some ''iPad Pro'', brand = Some ''Apple'', website = Some ''https://apple.com'',
      originalPrice = Some (Fin 999.99), date = Some ''2024-01-15'', userId = Some ''u1'',
      ptype = Some Want, currentPrice = None, targetPrice = Some (Fin 0),
      priceBought = None, images = None\<rparr>
   = \<lparr>valid = True, errors = []\<rparr> \<and> \<not> gt_zero (Fin 0)"
  by (simp add: validator_defs accepts_all_def)

text \<open>
  C4. The claim: \<open>validateReceiptUpdate\<close> applies the per-item rules of \<open>validateReceipt\<close>,
  so an update whose items contain a negative \<open>discountedPrice\<close> is rejected. The loop of
  \<open>validateReceiptUpdate\<close> has no rule for \<open>discountedPrice\<close>: the update is accepted,
  while \<open>validateReceipt\<close> rejects a receipt with the same item.
\<close>

theorem validateReceiptUpdate_accepts_negative_discountedPrice:
  "validateReceiptUpdate accepts_all accepts_all
     \<lparr>upd_receiptNumber = None, upd_storeName = None, upd_receiptDate = None,
      upd_items = Some [\<lparr>item_id = ''1'', item_productId = Some ''p1'',
                         item_quantity = Some (Fin 1), item_discountedPrice = Fin (- 5)\<rparr>],
      upd_totalAmount = None, upd_receiptImage = None\<rparr>
   = \<lparr>valid = True, errors = []\<rparr>
   \<and> validateReceipt accepts_all accepts_all
     \<lparr>receiptNumber = Some ''R-1'', storeName = Some ''Store'', receiptDate = Some ''2024-01-15'',
      items = Some [\<lparr>item_id = ''1'', item_productId = Some ''p1'',
                         item_quantity = Some (Fin 1), item_discountedPrice = Fin (- 5)\<rparr>],
      totalAmount = Fin 0, receipt_userId = Some ''u1'', receiptImage = None\<rparr>
   = \<lparr>valid = False, errors = [''Item 1: Price cannot be negative'']\<rparr>"
  by (simp add: validator_defs accepts_all_def show_nat.simps digit_char_def)

text \<open>
  The parts of C2 that do hold: the result is valid exactly when no error was collected,
  and the errors are the messages of all the checks that failed, in the order of the
  checks.
\<close>

lemma validateProduct_valid_iff_no_errors:
  "valid (validateProduct isValidUrl isValidDate product)
   = (errors (validateProduct isValidUrl isValidDate product) = [])"
  and validateProduct_errors:
  "errors (validateProduct isValidUrl isValidDate product)
   = product_errors isValidUrl isValidDate product"
  by (simp_all add: validateProduct_def Let_def)

lemma image_errors_empty: "(image_errors isValidUrl i urls = []) = list_all isValidUrl urls"
  by (induction urls arbitrary: i) auto

lemma missing_or_le_zero_iff: "missing_or_le_zero v = (\<not> present_and_positive v)"
  by (cases v; cases "the v") (auto simp add: missing_or_le_zero_def present_and_positive_def)

lemma truthy_and_le_zero_iff:
  "(case v of None \<Rightarrow> True | Some x \<Rightarrow> truthy_num x)
   \<Longrightarrow> truthy_and_le_zero v = (\<not> positive_if_present v)"
  by (cases v; cases "the v") (auto simp add: truthy_and_le_zero_def positive_if_present_def)

text \<open>
  What holds of C2: when the parsers refuse the empty string, as the platform's do, and
  the two "want" prices are absent or truthy (neither 0 nor NaN), \<open>validateProduct\<close>
  returns \<open>valid = false\<close> exactly when a declared rule is violated.
\<close>

lemma validateProduct_invalid_iff_rule_violated:
  assumes "\<not> isValidUrl []" "\<not> isValidDate []"
      and "case currentPrice product of None \<Rightarrow> True | Some x \<Rightarrow> truthy_num x"
      and "case targetPrice product of None \<Rightarrow> True | Some x \<Rightarrow> truthy_num x"
  shows "(\<not> valid (validateProduct isValidUrl isValidDate product))
         = declared_rule_violated isValidUrl isValidDate product"
proof -
  have url: "missing_or_not isValidUrl (website product)
             = (\<not> present_and_ok isValidUrl (website product))"
    using assms(1) by (auto simp add: missing_or_not_def present_and_ok_def split: option.splits)
  have dat: "missing_or_not isValidDate (date product)
             = (\<not> present_and_ok isValidDate (date product))"
    using assms(2) by (auto simp add: missing_or_not_def present_and_ok_def split: option.splits)
  have ty: "(type_errors product = [])
            = (\<not> (ptype product = Some Want
                   \<and> (\<not> positive_if_present (currentPrice product)
                       \<or> \<not> positive_if_present (targetPrice product)))
               \<and> \<not> (ptype product = Some Have \<and> \<not> present_and_positive (priceBought product)))"
    using truthy_and_le_zero_iff[OF assms(3)] truthy_and_le_zero_iff[OF assms(4)]
    by (auto simp add: type_errors_def missing_or_le_zero_iff split: option.splits ProductType.splits)
  have img: "((case images product of None \<Rightarrow> [] | Some urls \<Rightarrow> image_errors isValidUrl 0 urls) = [])
             = (\<not> (case images product of None \<Rightarrow> False | Some urls \<Rightarrow> \<not> list_all isValidUrl urls))"
    by (simp add: image_errors_empty split: option.splits)
  show ?thesis
    unfolding validateProduct_def Let_def declared_rule_violated_def product_errors_def
    using ty img by (simp add: url dat missing_or_le_zero_iff)
qed

text \<open>
  What holds of C1: a negative price in any of the four fields is rejected on create
  (for the type the field belongs to), and a price of zero or below in \<open>originalPrice\<close>,
  \<open>currentPrice\<close> or \<open>priceBought\<close> is rejected on update.
\<close>

lemma validateProduct_rejects_negative_prices:
  assumes "lt_zero x"
  shows "originalPrice product = Some x \<Longrightarrow> \<not> valid (validateProduct isValidUrl isValidDate product)"
    and "ptype product = Some Want \<Longrightarrow> currentPrice product = Some x
         \<Longrightarrow> \<not> valid (validateProduct isValidUrl isValidDate product)"
    and "ptype product = Some Want \<Longrightarrow> targetPrice product = Some x
         \<Longrightarrow> \<not> valid (validateProduct isValidUrl isValidDate product)"
    and "ptype product = Some Have \<Longrightarrow> priceBought product = Some x
         \<Longrightarrow> \<not> valid (validateProduct isValidUrl isValidDate product)"
  using assms
  by (cases x; simp add: validateProduct_def product_errors_def type_errors_def
        missing_or_le_zero_def truthy_and_le_zero_def)+

lemma validateProductUpdate_rejects_nonpositive_prices:
  assumes "le_zero x"
  shows "upd_originalPrice updates = Some x
         \<Longrightarrow> \<not> valid (validateProductUpdate isValidUrl isValidDate updates)"
    and "upd_currentPrice updates = Some x
         \<Longrightarrow> \<not> valid (validateProductUpdate isValidUrl isValidDate updates)"
    and "upd_priceBought updates = Some x
         \<Longrightarrow> \<not> valid (validateProductUpdate isValidUrl isValidDate updates)"
  using assms
  by (simp_all add: validateProductUpdate_def product_update_errors_def present_and_le_zero_def)

section \<open>The store operations on a healthy backend\<close>

lemma with_id_other: "k \<noteq> ''id'' \<Longrightarrow> with_id i d k = d k"
  by (simp add: with_id_def map_add_def split: option.splits)

lemma getDoc_ok:
  "fault be = None \<Longrightarrow>
   getDoc be coll i = (Inr (map_of (docs be coll) i), be\<lparr>calls := calls be @ [GetDoc coll i]\<rparr>)"
  by (simp add: getDoc_def Let_def)

lemma getDocs_fault:
  "fault be = Some e \<Longrightarrow> getDocs be coll q = (Inl e, be\<lparr>calls := calls be @ [GetDocs coll]\<rparr>)"
  by (simp add: getDocs_def Let_def)

lemma getDocs_ok:
  "fault be = None \<Longrightarrow>
   getDocs be coll q =
     (Inr (filter (\<lambda>(docId, d). list_all (\<lambda>f. matches f d) q) (docs be coll)),
      be\<lparr>calls := calls be @ [GetDocs coll]\<rparr>)"
  by (simp add: getDocs_def Let_def)

lemma updateDoc_ok:
  "fault be = None \<Longrightarrow> map_of (docs be coll) i = Some d \<Longrightarrow>
   updateDoc be coll i data =
     (Inr (), be\<lparr>calls := calls be @ [UpdateDoc coll i],
                 docs := (docs be)(coll := AList.update i (d ++ data) (docs be coll))\<rparr>)"
  by (simp add: updateDoc_def Let_def)

lemma addDoc_ok:
  "fault be = None \<Longrightarrow>
   addDoc newId be coll data =
     (Inr newId, be\<lparr>calls := calls be @ [AddDoc coll],
                    docs := (docs be)(coll := docs be coll @ [(newId, data)])\<rparr>)"
  by (simp add: addDoc_def Let_def)

lemma updateProduct_ok:
  "initialized be \<Longrightarrow> fault be = None \<Longrightarrow> map_of (docs be PRODUCTS_COLLECTION) i = Some d \<Longrightarrow>
   updateProduct now be i updates =
     (Inr (), be\<lparr>calls := calls be @ [UpdateDoc PRODUCTS_COLLECTION i],
                 docs := (docs be)(PRODUCTS_COLLECTION :=
                   AList.update i (d ++ updates(''updatedAt'' \<mapsto> Str now))
                     (docs be PRODUCTS_COLLECTION))\<rparr>)"
  by (simp add: updateProduct_def updateDoc_ok)

lemmas sample_defs =
  sample_store_def sample_want_def sample_have_def sample_receipt_def sample_item_def
  PRODUCTS_COLLECTION_def RECEIPTS_COLLECTION_def

lemmas service_defs =
  asProductInput_def asProductUpdateInput_def str_prop_def num_prop_def strs_prop_def
  type_prop_def accepts_all_def

section \<open>Price history\<close>

text \<open>
  C3. On an initialised store that answers its calls, \<open>addPriceHistory\<close> fails with
  "Product not found" when no product has the identifier, having only read the store.
  Otherwise it succeeds, and the stored \<open>priceHistory\<close> is then the list that was stored
  before followed by the one new entry (price, clock reading, source label), or the one
  new entry alone when the product had no \<open>priceHistory\<close>; \<open>currentPrice\<close> is the new
  price when the type is "want" and is what it was for any other type; \<open>priceBought\<close>
  and every field other than \<open>priceHistory\<close>, \<open>currentPrice\<close> and \<open>updatedAt\<close> are as
  before, and so is every other product.
\<close>

theorem addPriceHistory_appends_entry:
  assumes up: "initialized be" "fault be = None"
  shows "(map_of (docs be PRODUCTS_COLLECTION) productId = None \<longrightarrow>
            addPriceHistory now now' be productId price site
            = (Inl (Error None ''Product not found''),
               be\<lparr>calls := calls be @ [GetDoc PRODUCTS_COLLECTION productId]\<rparr>))
       \<and> (\<forall>old. map_of (docs be PRODUCTS_COLLECTION) productId = Some old \<longrightarrow>
            (\<exists>be' new.
               addPriceHistory now now' be productId price site = (Inr (), be')
             \<and> map_of (docs be' PRODUCTS_COLLECTION) productId = Some new
             \<and> (\<forall>hist. old ''priceHistory'' = Some (Arr hist) \<longrightarrow>
                   new ''priceHistory''
                   = Some (Arr (hist
                       @ [Obj (Map.empty(''price'' \<mapsto> Num price, ''date'' \<mapsto> Str now,
                                         ''website'' \<mapsto> Str site))])))
             \<and> (old ''priceHistory'' = None \<longrightarrow>
                   new ''priceHistory''
                   = Some (Arr [Obj (Map.empty(''price'' \<mapsto> Num price, ''date'' \<mapsto> Str now,
                                               ''website'' \<mapsto> Str site))]))
             \<and> (old ''type'' = Some (Str ''want'') \<longrightarrow> new ''currentPrice'' = Some (Num price))
             \<and> (old ''type'' \<noteq> Some (Str ''want'') \<longrightarrow> new ''currentPrice'' = old ''currentPrice'')
             \<and> new ''priceBought'' = old ''priceBought''
             \<and> new ''updatedAt'' = Some (Str now')
             \<and> (\<forall>k. k \<notin> {''priceHistory'', ''currentPrice'', ''updatedAt''} \<longrightarrow> new k = old k)
             \<and> (\<forall>i. i \<noteq> productId \<longrightarrow>
                   map_of (docs be' PRODUCTS_COLLECTION) i = map_of (docs be PRODUCTS_COLLECTION) i)))"
proof (intro conjI impI allI)
  assume "map_of (docs be PRODUCTS_COLLECTION) productId = None"
  then show "addPriceHistory now now' be productId price site
            = (Inl (Error None ''Product not found''),
               be\<lparr>calls := calls be @ [GetDoc PRODUCTS_COLLECTION productId]\<rparr>)"
    using up by (simp add: addPriceHistory_def getProduct_def getDoc_ok)
next
  fix old
  assume old: "map_of (docs be PRODUCTS_COLLECTION) productId = Some old"
  let ?entry = "Obj (Map.empty(''price'' \<mapsto> Num price, ''date'' \<mapsto> Str now, ''website'' \<mapsto> Str site))"
  let ?updates = "(Map.empty(''priceHistory'' \<mapsto> Arr (priceHistory_or_empty old @ [?entry])))
           ++ (if old ''type'' = Some (Str ''want'')
               then Map.empty(''currentPrice'' \<mapsto> Num price) else Map.empty)"
  let ?be1 = "be\<lparr>calls := calls be @ [GetDoc PRODUCTS_COLLECTION productId]\<rparr>"
  let ?new = "old ++ ?updates(''updatedAt'' \<mapsto> Str now')"
  let ?be' = "?be1\<lparr>calls := calls ?be1 @ [UpdateDoc PRODUCTS_COLLECTION productId],
                 docs := (docs ?be1)(PRODUCTS_COLLECTION :=
                   AList.update productId ?new (docs ?be1 PRODUCTS_COLLECTION))\<rparr>"
  have hist: "priceHistory_or_empty (with_id productId old) = priceHistory_or_empty old"
    by (simp add: priceHistory_or_empty_def with_id_other)
  have ty: "with_id productId old ''type'' = old ''type''"
    by (simp add: with_id_other)
  have fetch: "getProduct be productId = (Inr (Some (with_id productId old)), ?be1)"
    using up old by (simp add: getProduct_def getDoc_ok)
  have upd: "updateProduct now' ?be1 productId ?updates = (Inr (), ?be')"
    using up old by (intro updateProduct_ok) simp_all
  have run: "addPriceHistory now now' be productId price site = (Inr (), ?be')"
    unfolding addPriceHistory_def fetch using upd by (simp add: hist ty Let_def)
  have stored: "map_of (docs ?be' PRODUCTS_COLLECTION) productId = Some ?new"
    by (simp add: update_conv')
  have f0: "?new ''priceHistory'' = Some (Arr (priceHistory_or_empty old @ [?entry]))"
    by (simp add: map_add_def)
  have f1: "\<forall>hist. old ''priceHistory'' = Some (Arr hist) \<longrightarrow>
              ?new ''priceHistory'' = Some (Arr (hist @ [?entry]))"
    unfolding f0 by (simp add: priceHistory_or_empty_def)
  have f1': "old ''priceHistory'' = None \<longrightarrow> ?new ''priceHistory'' = Some (Arr [?entry])"
    unfolding f0 by (simp add: priceHistory_or_empty_def)
  have f2: "old ''type'' = Some (Str ''want'') \<longrightarrow> ?new ''currentPrice'' = Some (Num price)"
    by (simp add: map_add_def)
  have f3: "old ''type'' \<noteq> Some (Str ''want'') \<longrightarrow> ?new ''currentPrice'' = old ''currentPrice''"
    by (simp add: map_add_def)
  have f4: "?new ''priceBought'' = old ''priceBought''"
    by (simp add: map_add_def)
  have f5: "?new ''updatedAt'' = Some (Str now')"
    by simp
  have f6: "\<forall>k. k \<notin> {''priceHistory'', ''currentPrice'', ''updatedAt''} \<longrightarrow> ?new k = old k"
    by (simp add: map_add_def)
  have f7: "\<forall>i. i \<noteq> productId \<longrightarrow>
      map_of (docs ?be' PRODUCTS_COLLECTION) i = map_of (docs be PRODUCTS_COLLECTION) i"
    by (simp add: update_conv')
  show "\<exists>be' new.
               addPriceHistory now now' be productId price site = (Inr (), be')
             \<and> map_of (docs be' PRODUCTS_COLLECTION) productId = Some new
             \<and> (\<forall>hist. old ''priceHistory'' = Some (Arr hist) \<longrightarrow>
                   new ''priceHistory'' = Some (Arr (hist @ [?entry])))
             \<and> (old ''priceHistory'' = None \<longrightarrow> new ''priceHistory'' = Some (Arr [?entry]))
             \<and> (old ''type'' = Some (Str ''want'') \<longrightarrow> new ''currentPrice'' = Some (Num price))
             \<and> (old ''type'' \<noteq> Some (Str ''want'') \<longrightarrow> new ''currentPrice'' = old ''currentPrice'')
             \<and> new ''priceBought'' = old ''priceBought''
             \<and> new ''updatedAt'' = Some (Str now')
             \<and> (\<forall>k. k \<notin> {''priceHistory'', ''currentPrice'', ''updatedAt''} \<longrightarrow> new k = old k)
             \<and> (\<forall>i. i \<noteq> productId \<longrightarrow>
                   map_of (docs be' PRODUCTS_COLLECTION) i = map_of (docs be PRODUCTS_COLLECTION) i)"
    apply (rule exI[of _ ?be'])
    apply (rule exI[of _ ?new])
    apply (intro conjI)
    apply (rule run, rule stored, rule f1, rule f1', rule f2, rule f3, rule f4, rule f5,
           rule f6, rule f7)
    done
qed

text \<open>
  The theorem at the sample store. The "want" product \<open>p1\<close> has a stored history of two
  entries: after the call its history is those two entries followed by the new one, and
  its current price is the new price. The "have" product \<open>p2\<close> has no history: after the
  same call its history is the new entry alone, \<open>currentPrice\<close> is still absent and
  \<open>priceBought\<close> is still 899.99. An unknown identifier is refused.
\<close>

theorem addPriceHistory_appends_entry_witness:
  "initialized sample_store \<and> fault sample_store = None
   \<and> fst (addPriceHistory ''2024-03-01T12:00:00.000Z'' ''2024-03-01T12:00:00.001Z''
            sample_store ''p1'' (Fin 899) ''Amazon'') = Inr ()
   \<and> stored_field sample_store PRODUCTS_COLLECTION ''p1'' ''priceHistory''
       = Some (Arr [sample_entry (Fin 999.99) ''2024-01-15T10:00:00.000Z'' ''Apple'',
                    sample_entry (Fin 949) ''2024-02-10T09:00:00.000Z'' ''Currys''])
   \<and> stored_field (snd (addPriceHistory ''2024-03-01T12:00:00.000Z'' ''2024-03-01T12:00:00.001Z''
            sample_store ''p1'' (Fin 899) ''Amazon'')) PRODUCTS_COLLECTION ''p1'' ''priceHistory''
       = Some (Arr [sample_entry (Fin 999.99) ''2024-01-15T10:00:00.000Z'' ''Apple'',
                    sample_entry (Fin 949) ''2024-02-10T09:00:00.000Z'' ''Currys'',
                    sample_entry (Fin 899) ''2024-03-01T12:00:00.000Z'' ''Amazon''])
   \<and> stored_field (snd (addPriceHistory ''2024-03-01T12:00:00.000Z'' ''2024-03-01T12:00:00.001Z''
            sample_store ''p1'' (Fin 899) ''Amazon'')) PRODUCTS_COLLECTION ''p1'' ''currentPrice''
       = Some (Num (Fin 899))
   \<and> stored_field sample_store PRODUCTS_COLLECTION ''p2'' ''priceHistory'' = None
   \<and> stored_field (snd (addPriceHistory ''2024-03-01T12:00:00.000Z'' ''2024-03-01T12:00:00.001Z''
            sample_store ''p2'' (Fin 899) ''Amazon'')) PRODUCTS_COLLECTION ''p2'' ''priceHistory''
       = Some (Arr [sample_entry (Fin 899) ''2024-03-01T12:00:00.000Z'' ''Amazon''])
   \<and> stored_field (snd (addPriceHistory ''2024-03-01T12:00:00.000Z'' ''2024-03-01T12:00:00.001Z''
            sample_store ''p2'' (Fin 899) ''Amazon'')) PRODUCTS_COLLECTION ''p2'' ''currentPrice''
       = None
   \<and> stored_field (snd (addPriceHistory ''2024-03-01T12:00:00.000Z'' ''2024-03-01T12:00:00.001Z''
            sample_store ''p2'' (Fin 899) ''Amazon'')) PRODUCTS_COLLECTION ''p2'' ''priceBought''
       = Some (Num (Fin 899.99))
   \<and> fst (addPriceHistory ''2024-03-01T12:00:00.000Z'' ''2024-03-01T12:00:00.001Z''
            sample_store ''p9'' (Fin 899) ''Amazon'') = Inl (Error None ''Product not found'')"
proof -
  have h1: "initialized sample_store" and h2: "fault sample_store = None"
    by (simp_all add: sample_store_def)
  have p1: "map_of (docs sample_store PRODUCTS_COLLECTION) ''p1'' = Some sample_want"
   and p2: "map_of (docs sample_store PRODUCTS_COLLECTION) ''p2'' = Some sample_have"
   and p9: "map_of (docs sample_store PRODUCTS_COLLECTION) ''p9'' = None"
    by (simp_all add: sample_store_def PRODUCTS_COLLECTION_def)
  have w: "sample_want ''type'' = Some (Str ''want'')"
          "sample_want ''priceHistory''
           = Some (Arr [sample_entry (Fin 999.99) ''2024-01-15T10:00:00.000Z'' ''Apple'',
                        sample_entry (Fin 949) ''2024-02-10T09:00:00.000Z'' ''Currys''])"
    by (simp_all add: sample_want_def)
  have h: "sample_have ''type'' \<noteq> Some (Str ''want'')"
          "sample_have ''currentPrice'' = None"
          "sample_have ''priceBought'' = Some (Num (Fin 899.99))"
          "sample_have ''priceHistory'' = None"
    by (simp_all add: sample_have_def)
  have before: "stored_field sample_store PRODUCTS_COLLECTION ''p1'' ''priceHistory''
       = Some (Arr [sample_entry (Fin 999.99) ''2024-01-15T10:00:00.000Z'' ''Apple'',
                    sample_entry (Fin 949) ''2024-02-10T09:00:00.000Z'' ''Currys''])"
       "stored_field sample_store PRODUCTS_COLLECTION ''p2'' ''priceHistory'' = None"
    by (simp_all add: stored_field_def p1 p2 w h)
  note inst = addPriceHistory_appends_entry [OF h1 h2,
      where now = "''2024-03-01T12:00:00.000Z''" and now' = "''2024-03-01T12:00:00.001Z''"
        and price = "Fin 899" and site = "''Amazon''"]
  from inst [where productId = "''p1''", THEN conjunct2, THEN spec, THEN mp, OF p1]
  obtain be1 new1 where
        r1: "addPriceHistory ''2024-03-01T12:00:00.000Z'' ''2024-03-01T12:00:00.001Z''
               sample_store ''p1'' (Fin 899) ''Amazon'' = (Inr (), be1)"
    and s1: "map_of (docs be1 PRODUCTS_COLLECTION) ''p1'' = Some new1"
    and a1: "\<forall>hist. sample_want ''priceHistory'' = Some (Arr hist) \<longrightarrow>
               new1 ''priceHistory''
               = Some (Arr (hist @ [Obj (Map.empty(''price'' \<mapsto> Num (Fin 899),
                                          ''date'' \<mapsto> Str ''2024-03-01T12:00:00.000Z'',
                                          ''website'' \<mapsto> Str ''Amazon''))]))"
    and c1: "sample_want ''type'' = Some (Str ''want'') \<longrightarrow> new1 ''currentPrice'' = Some (Num (Fin 899))"
    by (elim exE conjE)
  from a1 w(2)
  have l1: "new1 ''priceHistory''
       = Some (Arr [sample_entry (Fin 999.99) ''2024-01-15T10:00:00.000Z'' ''Apple'',
                    sample_entry (Fin 949) ''2024-02-10T09:00:00.000Z'' ''Currys'',
                    sample_entry (Fin 899) ''2024-03-01T12:00:00.000Z'' ''Amazon''])"
    by (simp add: sample_entry_def)
  have a: "fst (addPriceHistory ''2024-03-01T12:00:00.000Z'' ''2024-03-01T12:00:00.001Z''
            sample_store ''p1'' (Fin 899) ''Amazon'') = Inr ()
     \<and> stored_field (snd (addPriceHistory ''2024-03-01T12:00:00.000Z'' ''2024-03-01T12:00:00.001Z''
            sample_store ''p1'' (Fin 899) ''Amazon'')) PRODUCTS_COLLECTION ''p1'' ''priceHistory''
       = Some (Arr [sample_entry (Fin 999.99) ''2024-01-15T10:00:00.000Z'' ''Apple'',
                    sample_entry (Fin 949) ''2024-02-10T09:00:00.000Z'' ''Currys'',
                    sample_entry (Fin 899) ''2024-03-01T12:00:00.000Z'' ''Amazon''])
     \<and> stored_field (snd (addPriceHistory ''2024-03-01T12:00:00.000Z'' ''2024-03-01T12:00:00.001Z''
            sample_store ''p1'' (Fin 899) ''Amazon'')) PRODUCTS_COLLECTION ''p1'' ''currentPrice''
         = Some (Num (Fin 899))"
    using c1 w(1) l1 by (simp add: r1 s1 stored_field_def)
  from inst [where productId = "''p2''", THEN conjunct2, THEN spec, THEN mp, OF p2]
  obtain be2 new2 where
        r2: "addPriceHistory ''2024-03-01T12:00:00.000Z'' ''2024-03-01T12:00:00.001Z''
               sample_store ''p2'' (Fin 899) ''Amazon'' = (Inr (), be2)"
    and s2: "map_of (docs be2 PRODUCTS_COLLECTION) ''p2'' = Some new2"
    and a2: "sample_have ''priceHistory'' = None \<longrightarrow>
               new2 ''priceHistory''
               = Some (Arr [Obj (Map.empty(''price'' \<mapsto> Num (Fin 899),
                                  ''date'' \<mapsto> Str ''2024-03-01T12:00:00.000Z'',
                                  ''website'' \<mapsto> Str ''Amazon''))])"
    and c2: "sample_have ''type'' \<noteq> Some (Str ''want'') \<longrightarrow>
               new2 ''currentPrice'' = sample_have ''currentPrice''"
    and b2: "new2 ''priceBought'' = sample_have ''priceBought''"
    by (elim exE conjE)
  from a2 h(4)
  have l2: "new2 ''priceHistory''
       = Some (Arr [sample_entry (Fin 899) ''2024-03-01T12:00:00.000Z'' ''Amazon''])"
    by (simp add: sample_entry_def)
  have b: "stored_field (snd (addPriceHistory ''2024-03-01T12:00:00.000Z'' ''2024-03-01T12:00:00.001Z''
            sample_store ''p2'' (Fin 899) ''Amazon'')) PRODUCTS_COLLECTION ''p2'' ''priceHistory''
         = Some (Arr [sample_entry (Fin 899) ''2024-03-01T12:00:00.000Z'' ''Amazon''])
     \<and> stored_field (snd (addPriceHistory ''2024-03-01T12:00:00.000Z'' ''2024-03-01T12:00:00.001Z''
            sample_store ''p2'' (Fin 899) ''Amazon'')) PRODUCTS_COLLECTION ''p2'' ''currentPrice''
         = None
     \<and> stored_field (snd (addPriceHistory ''2024-03-01T12:00:00.000Z'' ''2024-03-01T12:00:00.001Z''
            sample_store ''p2'' (Fin 899) ''Amazon'')) PRODUCTS_COLLECTION ''p2'' ''priceBought''
         = Some (Num (Fin 899.99))"
    using c2 b2 h l2 by (simp add: r2 s2 stored_field_def)
  from inst [where productId = "''p9''", THEN conjunct1, THEN mp, OF p9]
  have c: "fst (addPriceHistory ''2024-03-01T12:00:00.000Z'' ''2024-03-01T12:00:00.001Z''
            sample_store ''p9'' (Fin 899) ''Amazon'') = Inl (Error None ''Product not found'')"
    by simp
  from h1 h2 a before b c show ?thesis
    by simp
qed

text \<open>
  C10. The claim: for every product identifier and every price that is zero or below,
  \<open>ProductService.addPriceHistory\<close> throws "Price must be greater than 0" before any
  repository call. The identifier is checked first: with the empty identifier the error
  is "Valid productId is required".
\<close>

theorem addPriceHistory_empty_productId_error:
  "ProductService_addPriceHistory ''2024-03-01T12:00:00.000Z'' ''2024-03-01T12:00:00.001Z''
      sample_store [] (Fin 0) ''2024-03-01'' None None
   = (Inl (Error None ''Valid productId is required''), sample_store)
   \<and> le_zero (Fin 0)
   \<and> Error None ''Valid productId is required'' \<noteq> Error None ''Price must be greater than 0''"
  by (simp add: ProductService_addPriceHistory_def)

text \<open>
  C10, amended. For every price that is zero or below, \<open>ProductService.addPriceHistory\<close>
  fails and returns the store as it received it, the list of store calls included: with
  the error "Price must be greater than 0" when the product identifier is not empty, and
  with the error "Valid productId is required" when it is empty.
\<close>

theorem addPriceHistory_rejects_nonpositive_price:
  assumes "le_zero price"
  shows "(\<exists>msg. ProductService_addPriceHistory now now' be productId price dateArg storeArg notesArg
            = (Inl (Error None msg), be))
       \<and> (productId \<noteq> [] \<longrightarrow>
            ProductService_addPriceHistory now now' be productId price dateArg storeArg notesArg
            = (Inl (Error None ''Price must be greater than 0''), be))
       \<and> (productId = [] \<longrightarrow>
            ProductService_addPriceHistory now now' be productId price dateArg storeArg notesArg
            = (Inl (Error None ''Valid productId is required''), be))"
  using assms by (simp add: ProductService_addPriceHistory_def)

theorem addPriceHistory_rejects_nonpositive_price_witness:
  "le_zero (Fin (- 1)) \<and> ''p1'' \<noteq> []
   \<and> ProductService_addPriceHistory ''2024-03-01T12:00:00.000Z'' ''2024-03-01T12:00:00.001Z''
        sample_store ''p1'' (Fin (- 1)) ''2024-03-01'' (Some ''Amazon'') None
     = (Inl (Error None ''Price must be greater than 0''), sample_store)
   \<and> ProductService_addPriceHistory ''2024-03-01T12:00:00.000Z'' ''2024-03-01T12:00:00.001Z''
        sample_store [] (Fin (- 1)) ''2024-03-01'' (Some ''Amazon'') None
     = (Inl (Error None ''Valid productId is required''), sample_store)"
proof -
  have h: "le_zero (Fin (- 1))" by simp
  from addPriceHistory_rejects_nonpositive_price [OF h, where productId = "''p1''"]
       addPriceHistory_rejects_nonpositive_price [OF h, where productId = "[]"]
  show ?thesis by simp
qed

section \<open>Creating and updating a product\<close>

text \<open>
  C7. When the payload fails validation, \<open>ProductService.createProduct\<close> fails with the
  one error "Validation failed: " followed by all the messages the validator collected,
  joined with ", ", and returns the store as it received it, with no call made. When the
  payload passes and the store is initialised and answers, it returns the identifier the
  store chose, and the store holds under that identifier the payload with \<open>createdAt\<close> and
  \<open>updatedAt\<close> both set to the one clock reading, which is not empty when the clock's
  string is not.
\<close>

theorem createProduct_validates_and_stamps:
  "(\<not> valid (validateProduct isValidUrl isValidDate (asProductInput productData)) \<longrightarrow>
      ProductService_createProduct isValidUrl isValidDate now newId be productData
      = (Inl (Error None (''Validation failed: ''
              @ join '', '' (product_errors isValidUrl isValidDate (asProductInput productData)))),
         be))
   \<and> (valid (validateProduct isValidUrl isValidDate (asProductInput productData))
       \<and> initialized be \<and> fault be = None \<and> now \<noteq> [] \<longrightarrow>
      (\<exists>stored createdAt updatedAt.
         ProductService_createProduct isValidUrl isValidDate now newId be productData
         = (Inr newId,
            be\<lparr>calls := calls be @ [AddDoc PRODUCTS_COLLECTION],
               docs := (docs be)(PRODUCTS_COLLECTION :=
                          docs be PRODUCTS_COLLECTION @ [(newId, stored)])\<rparr>)
         \<and> stored ''createdAt'' = Some (Str createdAt)
         \<and> stored ''updatedAt'' = Some (Str updatedAt)
         \<and> createdAt = updatedAt \<and> createdAt = now \<and> createdAt \<noteq> []
         \<and> (\<forall>k. k \<noteq> ''createdAt'' \<longrightarrow> k \<noteq> ''updatedAt'' \<longrightarrow> stored k = productData k)))"
  by (auto simp add: ProductService_createProduct_def validation_failed_def validateProduct_def
       Let_def createProduct_def addDoc_ok)

text \<open>
  The theorem at two payloads: a "have" product without \<open>priceBought\<close>, with a blank name
  and an \<open>originalPrice\<close> of 0, is refused with the three messages joined and the store
  untouched; the sample "want" product is accepted and stored under the new identifier.
\<close>

theorem createProduct_validates_and_stamps_witness:
  "\<not> valid (validateProduct accepts_all accepts_all
        (asProductInput (sample_have(''priceBought'' := None, ''name'' \<mapsto> Str '' '',
                                     ''originalPrice'' \<mapsto> Num (Fin 0)))))
   \<and> ProductService_createProduct accepts_all accepts_all ''2024-03-01T12:00:00.000Z'' ''p3''
        sample_store
        (sample_have(''priceBought'' := None, ''name'' \<mapsto> Str '' '',
                     ''originalPrice'' \<mapsto> Num (Fin 0)))
     = (Inl (Error None
          ''Validation failed: Product name is required, Original price must be greater than 0, Price bought must be greater than 0''),
        sample_store)
   \<and> valid (validateProduct accepts_all accepts_all (asProductInput sample_want))
   \<and> initialized sample_store \<and> fault sample_store = None
   \<and> ''2024-03-01T12:00:00.000Z'' \<noteq> []
   \<and> fst (ProductService_createProduct accepts_all accepts_all ''2024-03-01T12:00:00.000Z'' ''p3''
        sample_store sample_want) = Inr ''p3''
   \<and> stored_field (snd (ProductService_createProduct accepts_all accepts_all
        ''2024-03-01T12:00:00.000Z'' ''p3'' sample_store sample_want))
        PRODUCTS_COLLECTION ''p3'' ''createdAt'' = Some (Str ''2024-03-01T12:00:00.000Z'')
   \<and> stored_field (snd (ProductService_createProduct accepts_all accepts_all
        ''2024-03-01T12:00:00.000Z'' ''p3'' sample_store sample_want))
        PRODUCTS_COLLECTION ''p3'' ''updatedAt'' = Some (Str ''2024-03-01T12:00:00.000Z'')"
proof -
  let ?bad = "sample_have(''priceBought'' := None, ''name'' \<mapsto> Str '' '',
                          ''originalPrice'' \<mapsto> Num (Fin 0))"
  have bad_errors: "product_errors accepts_all accepts_all (asProductInput ?bad)
      = [''Product name is required'', ''Original price must be greater than 0'',
         ''Price bought must be greater than 0'']"
    by (simp add: validator_defs service_defs sample_have_def)
  have bad: "\<not> valid (validateProduct accepts_all accepts_all (asProductInput ?bad))"
    by (simp add: validateProduct_def bad_errors)
  have good: "valid (validateProduct accepts_all accepts_all (asProductInput sample_want))"
    by (simp add: validator_defs service_defs sample_want_def)
  have h1: "initialized sample_store" and h2: "fault sample_store = None"
    by (simp_all add: sample_store_def)
  have h3: "''2024-03-01T12:00:00.000Z'' \<noteq> []"
    by simp
  have fresh: "map_of (docs sample_store PRODUCTS_COLLECTION) ''p3'' = None"
    by (simp add: sample_store_def PRODUCTS_COLLECTION_def)
  from createProduct_validates_and_stamps
         [where newId = "''p3''" and now = "''2024-03-01T12:00:00.000Z''" and be = sample_store,
          THEN conjunct1, THEN mp, OF bad]
  have a: "ProductService_createProduct accepts_all accepts_all ''2024-03-01T12:00:00.000Z'' ''p3''
        sample_store ?bad
     = (Inl (Error None
          ''Validation failed: Product name is required, Original price must be greater than 0, Price bought must be greater than 0''),
        sample_store)"
    by (simp add: bad_errors)
  have pre: "valid (validateProduct accepts_all accepts_all (asProductInput sample_want))
       \<and> initialized sample_store \<and> fault sample_store = None
       \<and> ''2024-03-01T12:00:00.000Z'' \<noteq> []"
    using good h1 h2 h3 by simp
  from createProduct_validates_and_stamps [where newId = "''p3''", THEN conjunct2, THEN mp, OF pre]
  obtain stored createdAt updatedAt where
        run: "ProductService_createProduct accepts_all accepts_all ''2024-03-01T12:00:00.000Z''
                ''p3'' sample_store sample_want
              = (Inr ''p3'',
                 sample_store\<lparr>calls := calls sample_store @ [AddDoc PRODUCTS_COLLECTION],
                   docs := (docs sample_store)(PRODUCTS_COLLECTION :=
                          docs sample_store PRODUCTS_COLLECTION @ [(''p3'', stored)])\<rparr>)"
    and c: "stored ''createdAt'' = Some (Str createdAt)"
    and u: "stored ''updatedAt'' = Some (Str updatedAt)"
    and e: "createdAt = updatedAt" "createdAt = ''2024-03-01T12:00:00.000Z''"
    by (elim exE conjE)
  from c u e
  have cu: "stored ''createdAt'' = Some (Str ''2024-03-01T12:00:00.000Z'')"
           "stored ''updatedAt'' = Some (Str ''2024-03-01T12:00:00.000Z'')"
    by simp_all
  have b: "fst (ProductService_createProduct accepts_all accepts_all ''2024-03-01T12:00:00.000Z'' ''p3''
        sample_store sample_want) = Inr ''p3''
   \<and> stored_field (snd (ProductService_createProduct accepts_all accepts_all
        ''2024-03-01T12:00:00.000Z'' ''p3'' sample_store sample_want))
        PRODUCTS_COLLECTION ''p3'' ''createdAt'' = Some (Str ''2024-03-01T12:00:00.000Z'')
   \<and> stored_field (snd (ProductService_createProduct accepts_all accepts_all
        ''2024-03-01T12:00:00.000Z'' ''p3'' sample_store sample_want))
        PRODUCTS_COLLECTION ''p3'' ''updatedAt'' = Some (Str ''2024-03-01T12:00:00.000Z'')"
    using cu fresh by (simp add: run stored_field_def map_add_def)
  from bad a good h1 h2 h3 b show ?thesis
    by simp
qed




section \<open>Listing products\<close>

lemma compareCreated_le: "(compareCreated lc a b \<le> 0) = sorts_before lc a b"
  by (auto simp add: compareCreated_def sorts_before_def timestamp_of_def createdAt_or_empty_def
        Let_def split: option.splits jsval.splits)

lemma mset_two:
  assumes "mset xs = {#a, b#}"
  shows "xs = [a, b] \<or> xs = [b, a]"
proof -
  from assms have "length xs = 2"
    by (metis size_mset size_add_mset size_empty numeral_2_eq_2)
  then obtain x y where xy: "xs = [x, y]"
    by (cases xs; cases "tl xs") auto
  with assms show ?thesis
    by (auto simp add: add_eq_conv_ex)
qed

lemma set_insert_by: "set (insert_by cmp x ys) = insert x (set ys)"
  by (induction ys) auto

lemma mset_insert_by: "mset (insert_by cmp x ys) = add_mset x (mset ys)"
  by (induction ys) auto

lemma mset_sort_by: "mset (sort_by cmp xs) = mset xs"
  by (induction xs) (simp_all add: sort_by_def mset_insert_by)

lemma sorted_insert_by:
  assumes total: "\<And>a b. cmp a b \<le> 0 \<or> cmp b a \<le> 0"
      and trans: "\<And>a b c. cmp a b \<le> 0 \<Longrightarrow> cmp b c \<le> 0 \<Longrightarrow> cmp a c \<le> 0"
  shows "sorted_wrt (\<lambda>a b. cmp a b \<le> 0) ys
         \<Longrightarrow> sorted_wrt (\<lambda>a b. cmp a b \<le> 0) (insert_by cmp x ys)"
proof (induction ys)
  case Nil
  then show ?case by simp
next
  case (Cons y ys)
  show ?case
  proof (cases "cmp x y \<le> 0")
    case True
    with Cons.prems show ?thesis
      by (auto intro: trans)
  next
    case False
    with total[of x y] have "cmp y x \<le> 0" by simp
    with False Cons show ?thesis
      by (auto simp add: set_insert_by)
  qed
qed

lemma sorted_sort_by:
  assumes total: "\<And>a b. cmp a b \<le> 0 \<or> cmp b a \<le> 0"
      and trans: "\<And>a b c. cmp a b \<le> 0 \<Longrightarrow> cmp b c \<le> 0 \<Longrightarrow> cmp a c \<le> 0"
  shows "sorted_wrt (\<lambda>a b. cmp a b \<le> 0) (sort_by cmp xs)"
proof (induction xs)
  case Nil
  then show ?case by (simp add: sort_by_def)
next
  case (Cons x xs)
  have "sort_by cmp (x # xs) = insert_by cmp x (sort_by cmp xs)"
    by (simp add: sort_by_def)
  with Cons sorted_insert_by[OF total trans] show ?case
    by simp
qed

lemma sorts_before_total:
  assumes "\<forall>s t. lc s t \<le> 0 \<or> lc t s \<le> 0"
  shows "sorts_before lc a b \<or> sorts_before lc b a"
  using assms unfolding sorts_before_def by (auto split: option.splits)

lemma sorts_before_trans:
  assumes "\<forall>s t u. lc s t \<le> 0 \<longrightarrow> lc t u \<le> 0 \<longrightarrow> lc s u \<le> 0"
      and "sorts_before lc a b" "sorts_before lc b c"
  shows "sorts_before lc a c"
  using assms unfolding sorts_before_def by (auto split: option.splits)

lemma getProducts_fault: "fault be = Some e \<Longrightarrow> fst (getProducts lc be uid type) = []"
  by (simp add: getProducts_def getProducts_try_def getDocs_fault Let_def)

lemma getProducts_uninitialized: "\<not> initialized be \<Longrightarrow> fst (getProducts lc be uid type) = []"
  by (simp add: getProducts_def getProducts_try_def)

lemma getProducts_ok:
  assumes "initialized be" "fault be = None"
  shows "fst (getProducts lc be uid type)
         = sort_by (compareCreated lc)
             (map (\<lambda>(docId, d). with_id docId d)
                (filter (\<lambda>(docId, d). products_query uid type d) (docs be PRODUCTS_COLLECTION)))"
proof -
  have q: "\<And>d. (d ''userId'' = Some (Str uid) \<and> list_all (\<lambda>f. matches f d)
                  (case type of None \<Rightarrow> [] | Some t \<Rightarrow> [WhereEq ''type'' (Str (type_name t))]))
           = products_query uid type d"
    by (auto simp add: products_query_def split: option.splits)
  show ?thesis
    using assms by (simp add: getProducts_def getProducts_try_def getDocs_ok Let_def q)
qed

lemma compare_units_total: "compare_units s t \<le> 0 \<or> compare_units t s \<le> 0"
  by (induction s t rule: compare_units.induct) auto

lemma compare_units_trans:
  "compare_units s t \<le> 0 \<Longrightarrow> compare_units t u \<le> 0 \<Longrightarrow> compare_units s u \<le> 0"
proof (induction s t arbitrary: u rule: compare_units.induct)
  case 1
  then show ?case by simp
next
  case (2 y ys)
  then show ?case by (cases u) auto
next
  case (3 x xs)
  then show ?case by simp
next
  case (4 x xs y ys)
  then show ?case
    by (cases u) (auto split: if_splits)
qed

text \<open>
  C8. For a collation \<open>localeCompare\<close> that is total and transitive, as every collation is:
  when the store reports a failure, whatever its code ("failed-precondition",
  "unavailable" and "permission-denied" included), \<open>getProducts\<close> returns the empty list;
  when the store is initialised and answers, it returns the user's products, of the
  requested type if one is given, each exactly once, ordered newest first: a product
  never stands before one whose creation timestamp sorts after its own, and products
  without a timestamp come last.
\<close>

theorem getProducts_lenient_and_sorted:
  assumes total: "\<forall>s t. localeCompare s t \<le> 0 \<or> localeCompare t s \<le> 0"
      and trans: "\<forall>s t u. localeCompare s t \<le> 0 \<longrightarrow> localeCompare t u \<le> 0
                    \<longrightarrow> localeCompare s u \<le> 0"
  shows "(fault be = Some e \<longrightarrow> fst (getProducts localeCompare be uid type) = [])
       \<and> (initialized be \<and> fault be = None \<longrightarrow>
            sorted_wrt (sorts_before localeCompare) (fst (getProducts localeCompare be uid type))
          \<and> mset (fst (getProducts localeCompare be uid type))
            = mset (map (\<lambda>(docId, d). with_id docId d)
                 (filter (\<lambda>(docId, d). products_query uid type d) (docs be PRODUCTS_COLLECTION))))"
proof (intro conjI impI)
  assume "fault be = Some e"
  then show "fst (getProducts localeCompare be uid type) = []"
    by (rule getProducts_fault)
next
  assume up: "initialized be \<and> fault be = None"
  have "sorted_wrt (\<lambda>a b. compareCreated localeCompare a b \<le> 0)
          (sort_by (compareCreated localeCompare)
             (map (\<lambda>(docId, d). with_id docId d)
                (filter (\<lambda>(docId, d). products_query uid type d) (docs be PRODUCTS_COLLECTION))))"
  proof (rule sorted_sort_by)
    fix a b
    show "compareCreated localeCompare a b \<le> 0 \<or> compareCreated localeCompare b a \<le> 0"
      using sorts_before_total[OF total] by (simp add: compareCreated_le)
  next
    fix a b c
    assume "compareCreated localeCompare a b \<le> 0" "compareCreated localeCompare b c \<le> 0"
    then show "compareCreated localeCompare a c \<le> 0"
      using sorts_before_trans[OF trans] by (simp add: compareCreated_le)
  qed
  then show "sorted_wrt (sorts_before localeCompare) (fst (getProducts localeCompare be uid type))"
    using up by (simp add: getProducts_ok compareCreated_le)
next
  assume up: "initialized be \<and> fault be = None"
  then show "mset (fst (getProducts localeCompare be uid type))
            = mset (map (\<lambda>(docId, d). with_id docId d)
                 (filter (\<lambda>(docId, d). products_query uid type d) (docs be PRODUCTS_COLLECTION)))"
    by (simp add: getProducts_ok mset_sort_by)
qed

text \<open>
  The theorem at the sample store, with the collation that compares character by character
  (total and transitive by the two lemmas above). When the store reports "unavailable"
  the result is the empty list. When it answers, the result is the product created in
  February followed by the one created in January: the theorem leaves no other order,
  since the two products are the ones selected and the January product may not stand
  before the February one.
\<close>

theorem getProducts_lenient_and_sorted_witness:
  "fault (sample_store\<lparr>fault := Some (Error (Some ''unavailable'') ''offline'')\<rparr>)
       = Some (Error (Some ''unavailable'') ''offline'')
   \<and> fst (getProducts compare_units
            (sample_store\<lparr>fault := Some (Error (Some ''unavailable'') ''offline'')\<rparr>)
            ''alice'' None) = []
   \<and> initialized sample_store \<and> fault sample_store = None
   \<and> timestamp_of (with_id ''p1'' sample_want) = Some ''2024-01-15T10:00:00.000Z''
   \<and> timestamp_of (with_id ''p2'' sample_have) = Some ''2024-02-01T08:30:00.000Z''
   \<and> fst (getProducts compare_units sample_store ''alice'' None)
     = [with_id ''p2'' sample_have, with_id ''p1'' sample_want]"
proof -
  have total: "\<forall>s t. compare_units s t \<le> 0 \<or> compare_units t s \<le> 0"
    by (simp add: compare_units_total)
  have trans: "\<forall>s t u. compare_units s t \<le> 0 \<longrightarrow> compare_units t u \<le> 0
                 \<longrightarrow> compare_units s u \<le> 0"
    using compare_units_trans by blast
  have f: "fault (sample_store\<lparr>fault := Some (Error (Some ''unavailable'') ''offline'')\<rparr>)
           = Some (Error (Some ''unavailable'') ''offline'')"
    by simp
  have up: "initialized sample_store \<and> fault sample_store = None"
    by (simp add: sample_store_def)
  have t1: "timestamp_of (with_id ''p1'' sample_want) = Some ''2024-01-15T10:00:00.000Z''"
   and t2: "timestamp_of (with_id ''p2'' sample_have) = Some ''2024-02-01T08:30:00.000Z''"
    by (simp_all add: timestamp_of_def with_id_other sample_want_def sample_have_def)
  have sel: "filter (\<lambda>(docId, d). products_query ''alice'' None d)
               (docs sample_store PRODUCTS_COLLECTION)
             = [(''p1'', sample_want), (''p2'', sample_have)]"
    by (simp add: products_query_def sample_defs)
  have wrong: "\<not> sorts_before compare_units (with_id ''p1'' sample_want) (with_id ''p2'' sample_have)"
    by (simp add: sorts_before_def t1 t2)
  note inst = getProducts_lenient_and_sorted [OF total trans, where uid = "''alice''" and type = None]
  from inst [THEN conjunct1, THEN mp, OF f]
  have a: "fst (getProducts compare_units
            (sample_store\<lparr>fault := Some (Error (Some ''unavailable'') ''offline'')\<rparr>)
            ''alice'' None) = []" .
  from inst [THEN conjunct2, THEN mp, OF up]
  have sorted: "sorted_wrt (sorts_before compare_units)
                  (fst (getProducts compare_units sample_store ''alice'' None))"
   and perm: "mset (fst (getProducts compare_units sample_store ''alice'' None))
              = {#with_id ''p1'' sample_want, with_id ''p2'' sample_have#}"
    by (simp_all add: sel)
  from mset_two [OF perm] sorted wrong
  have b: "fst (getProducts compare_units sample_store ''alice'' None)
           = [with_id ''p2'' sample_have, with_id ''p1'' sample_want]"
    by auto
  from f a up t1 t2 b show ?thesis
    by blast
qed

section \<open>Receipts of a product\<close>

lemma query_object_differs:
  "m ''id'' \<noteq> None \<Longrightarrow> (Map.empty(''productId'' \<mapsto> v) = m) = False"
  "m ''id'' \<noteq> None \<Longrightarrow> (m = Map.empty(''productId'' \<mapsto> v)) = False"
  by (auto dest: fun_cong[of _ _ "''id''"])

text \<open>Whatever \<open>getReceiptsByProduct\<close> returns does contain an item of the product.\<close>

lemma getReceiptsByProduct_sound:
  "r \<in> set (fst (getReceiptsByProduct be pid)) \<Longrightarrow> has_item_for pid r"
  by (auto simp add: getReceiptsByProduct_def getDocs_def Let_def split: option.splits if_splits)

text \<open>
  When every item of every stored receipt has an \<open>id\<close>, as \<open>ReceiptItem\<close> requires, no
  item equals the query object \<open>{ productId }\<close>, and the result is empty for every
  product.
\<close>

lemma getReceiptsByProduct_empty:
  assumes "\<forall>(rid, d) \<in> set (docs be RECEIPTS_COLLECTION). \<forall>xs. d ''items'' = Some (Arr xs) \<longrightarrow>
             (\<forall>m. Obj m \<in> set xs \<longrightarrow> m ''id'' \<noteq> None)"
  shows "fst (getReceiptsByProduct be pid) = []"
proof -
  have "\<not> matches (ArrayContainsAny ''items'' [Obj (Map.empty(''productId'' \<mapsto> Str pid))]) d"
    if "(rid, d) \<in> set (docs be RECEIPTS_COLLECTION)" for rid d
    using assms that by (fastforce split: option.splits jsval.splits)
  then have "filter (\<lambda>(docId, d). list_all (\<lambda>f. matches f d)
                [ArrayContainsAny ''items'' [Obj (Map.empty(''productId'' \<mapsto> Str pid))]])
               (docs be RECEIPTS_COLLECTION) = []"
    by (auto simp add: filter_empty_conv)
  then show ?thesis
    by (simp add: getReceiptsByProduct_def getDocs_def Let_def split: option.splits)
qed

text \<open>
  C5. The claim: \<open>getReceiptsByProduct\<close> returns every receipt that has an item of the
  product. In the sample store the receipts \<open>r1\<close> and \<open>r2\<close> have an item of product \<open>p1\<close>,
  and the call for \<open>p1\<close> returns the empty list: the store is asked for receipts whose
  \<open>items\<close> contain the object \<open>{ productId: "p1" }\<close>, and a stored item, which also has
  an \<open>id\<close>, a \<open>quantity\<close> and a \<open>discountedPrice\<close>, is not equal to that object.
\<close>

theorem getReceiptsByProduct_misses_receipts:
  "fst (getReceiptsByProduct sample_store ''p1'') = []
   \<and> map_of (docs sample_store RECEIPTS_COLLECTION) ''r1''
       = Some (sample_receipt ''R-1'' [sample_item ''1'' ''p1''])
   \<and> has_item_for ''p1'' (with_id ''r1'' (sample_receipt ''R-1'' [sample_item ''1'' ''p1'']))
   \<and> map_of (docs sample_store RECEIPTS_COLLECTION) ''r2''
       = Some (sample_receipt ''R-2'' [sample_item ''1'' ''p1'', sample_item ''2'' ''p2''])
   \<and> has_item_for ''p1''
       (with_id ''r2'' (sample_receipt ''R-2'' [sample_item ''1'' ''p1'', sample_item ''2'' ''p2'']))"
  by (simp add: getReceiptsByProduct_def getDocs_def Let_def sample_defs has_item_for_def
       item_is_for_def with_id_def query_object_differs)

section \<open>Product lookup\<close>

lemma urls_differ:
  "barcode_url enc a \<noteq> search_url enc b" "search_url enc b \<noteq> barcode_url enc a"
  by (simp_all add: barcode_url_def search_url_def)

lemma blank_trim: "blank (Some q) = (trim q = [])"
  by (auto simp add: blank_def trim_def)

text \<open>
  What \<open>trim\<close> does, said without \<open>trim\<close>: a string made of white space, a core that
  neither begins nor ends with white space, and white space again, is trimmed to the
  core. Every string is made up this way.
\<close>

lemma trim_padded:
  assumes pre: "list_all is_ws pre" and post: "list_all is_ws post"
      and core: "core = [] \<or> (\<not> is_ws (hd core) \<and> \<not> is_ws (last core))"
  shows "trim (pre @ core @ post) = core"
proof (cases "core = []")
  case True
  from pre post have "\<forall>x\<in>set (pre @ post). is_ws x"
    by (auto simp add: list_all_iff)
  then have d: "dropWhile is_ws (pre @ post) = []"
    by (simp only: dropWhile_eq_Nil_conv)
  show ?thesis
    unfolding trim_def True by (simp only: append_Nil d rev.simps dropWhile.simps)
next
  case False
  with core have ends: "\<not> is_ws (hd core)" "\<not> is_ws (last core)"
    by simp_all
  from False ends(1) have front: "dropWhile is_ws (core @ post) = core @ post"
    by (cases core) simp_all
  from pre have "dropWhile is_ws (pre @ core @ post) = dropWhile is_ws (core @ post)"
    by (intro dropWhile_append2) (simp add: list_all_iff)
  with front have a: "dropWhile is_ws (pre @ core @ post) = core @ post"
    by simp
  from False ends(2) have tail_ok: "dropWhile is_ws (rev core) = rev core"
    by (cases "rev core") (simp_all add: last_rev [symmetric] hd_rev)
  from post have "dropWhile is_ws (rev post @ rev core) = dropWhile is_ws (rev core)"
    by (intro dropWhile_append2) (simp add: list_all_iff)
  with tail_ok have "dropWhile is_ws (rev (core @ post)) = rev core"
    by simp
  with a show ?thesis
    by (simp add: trim_def)
qed

lemma padded_decomposition:
  "\<exists>pre core post. query = pre @ core @ post \<and> list_all is_ws pre \<and> list_all is_ws post
      \<and> (core = [] \<or> (\<not> is_ws (hd core) \<and> \<not> is_ws (last core)))"
proof -
  let ?pre = "takeWhile is_ws query"
  let ?rest = "dropWhile is_ws query"
  let ?post = "rev (takeWhile is_ws (rev ?rest))"
  let ?core = "rev (dropWhile is_ws (rev ?rest))"
  have split: "?rest = ?core @ ?post"
    by (metis rev_append rev_rev_ident takeWhile_dropWhile_id)
  have whole: "query = ?pre @ ?core @ ?post"
    using split by (metis takeWhile_dropWhile_id)
  have w1: "list_all is_ws ?pre"
    by (simp add: list_all_iff) (metis set_takeWhileD)
  have w2: "list_all is_ws ?post"
    by (simp add: list_all_iff) (metis set_takeWhileD)
  have ends: "\<not> is_ws (hd ?core) \<and> \<not> is_ws (last ?core)" if ne: "?core \<noteq> []"
  proof
    from ne have "dropWhile is_ws (rev ?rest) \<noteq> []"
      by simp
    then have "\<not> is_ws (hd (dropWhile is_ws (rev ?rest)))"
      by (rule hd_dropWhile)
    with ne show "\<not> is_ws (last ?core)"
      by (simp add: last_rev)
    from ne split have rest: "?rest \<noteq> []" and "hd ?core = hd ?rest"
      by (metis append_is_Nil_conv, metis hd_append2)
    moreover from rest have "\<not> is_ws (hd ?rest)"
      by (rule hd_dropWhile)
    ultimately show "\<not> is_ws (hd ?core)"
      by simp
  qed
  from whole w1 w2 ends show ?thesis
    by blast
qed

text \<open>
  C9. Take any query: white space, a core that neither begins nor ends with white space,
  white space. The trimmed query is the core. When the core is one or more digits, the
  barcode lookup of the core is requested first; its result is returned if it has one,
  with no further request, and otherwise the name search for the core is requested next
  and its result returned. When the core has a character that is not a digit, the name
  search for the core is the only request. When the core is empty, no request is made. So
  the requests made start with the barcode lookup exactly when the core is all digits. A
  rejected \<open>fetch\<close>, a response that is not \<open>ok\<close> and a body that cannot be read all count
  as "not found".
\<close>

theorem lookupProduct_paths:
  assumes pre: "list_all is_ws pre" and post: "list_all is_ws post"
      and core: "core = [] \<or> (\<not> is_ws (hd core) \<and> \<not> is_ws (last core))"
  shows "trim (pre @ core @ post) = core
   \<and> (all_digits core \<longrightarrow>
      (case read_response (fetch (barcode_url enc core)) of
         Some r \<Rightarrow> lookupProduct fetch enc requests (pre @ core @ post)
                    = (Some r, requests @ [barcode_url enc core])
       | None \<Rightarrow> lookupProduct fetch enc requests (pre @ core @ post)
                  = (read_response (fetch (search_url enc core)),
                     requests @ [barcode_url enc core, search_url enc core])))
   \<and> (\<not> all_digits core \<and> core \<noteq> [] \<longrightarrow>
        lookupProduct fetch enc requests (pre @ core @ post)
        = (read_response (fetch (search_url enc core)), requests @ [search_url enc core]))
   \<and> (core = [] \<longrightarrow> lookupProduct fetch enc requests (pre @ core @ post) = (None, requests))
   \<and> ((\<exists>rest. snd (lookupProduct fetch enc requests (pre @ core @ post))
                 = requests @ barcode_url enc core # rest)
        = all_digits core)
   \<and> read_response NetworkError = None
   \<and> read_response (Response False status body) = None
   \<and> read_response (Response ok status None) = None"
proof -
  have t: "trim (pre @ core @ post) = core"
    using pre post core by (rule trim_padded)
  have paths: "(all_digits core \<longrightarrow>
      (case read_response (fetch (barcode_url enc core)) of
         Some r \<Rightarrow> lookupProduct fetch enc requests (pre @ core @ post)
                    = (Some r, requests @ [barcode_url enc core])
       | None \<Rightarrow> lookupProduct fetch enc requests (pre @ core @ post)
                  = (read_response (fetch (search_url enc core)),
                     requests @ [barcode_url enc core, search_url enc core])))
   \<and> (\<not> all_digits core \<and> core \<noteq> [] \<longrightarrow>
        lookupProduct fetch enc requests (pre @ core @ post)
        = (read_response (fetch (search_url enc core)), requests @ [search_url enc core]))
   \<and> (core = [] \<longrightarrow> lookupProduct fetch enc requests (pre @ core @ post) = (None, requests))
   \<and> ((\<exists>rest. snd (lookupProduct fetch enc requests (pre @ core @ post))
                 = requests @ barcode_url enc core # rest)
        = all_digits core)"
    unfolding lookupProduct_def blank_trim t
    by (auto simp add: lookupByBarcode_def searchProductByName_def all_digits_def Let_def
          urls_differ split: option.splits)
  have reads: "read_response NetworkError = None
   \<and> read_response (Response False status body) = None
   \<and> read_response (Response ok status None) = None"
    by (simp add: read_response_def)
  from t paths reads show ?thesis
    by simp
qed

text \<open>
  The theorem at the two queries of the specification, each padded with white space,
  against a database that knows the barcode and whose name search is unreachable. The
  padded barcode makes the one barcode request, for the barcode without the padding, and
  returns the product. The padded "iPad Pro" makes the one name-search request, for
  "iPad Pro" without the padding, and returns nothing.
\<close>

theorem lookupProduct_paths_witness:
  "list_all is_ws '' '' \<and> list_all is_ws [CHR 0x09, CHR '' '']
   \<and> \<not> is_ws (hd ''0123456789012'') \<and> \<not> is_ws (last ''0123456789012'')
   \<and> all_digits ''0123456789012''
   \<and> trim ([CHR 0x09, CHR '' ''] @ ''0123456789012'' @ '' '') = ''0123456789012''
   \<and> lookupProduct sample_fetch plain [] ([CHR 0x09, CHR '' ''] @ ''0123456789012'' @ '' '')
     = (Some \<lparr>lr_name = Some ''iPad Pro'', lr_brand = Some ''Apple'', lr_description = None,
              lr_category = None, lr_images = None, lr_price = None, lr_website = None,
              lr_specifications = None\<rparr>,
        [''https://api.upcitemdb.com/prod/trial/lookup?upc=0123456789012''])
   \<and> \<not> is_ws (hd ''iPad Pro'') \<and> \<not> is_ws (last ''iPad Pro'')
   \<and> \<not> all_digits ''iPad Pro'' \<and> ''iPad Pro'' \<noteq> []
   \<and> trim ('' '' @ ''iPad Pro'' @ [CHR 0x09, CHR '' '']) = ''iPad Pro''
   \<and> lookupProduct sample_fetch plain [] ('' '' @ ''iPad Pro'' @ [CHR 0x09, CHR '' ''])
     = (None,
        [''https://api.upcitemdb.com/prod/trial/search?s=iPad Pro&match_mode=0&type=product''])"
proof -
  have w1: "list_all is_ws '' ''" and w2: "list_all is_ws [CHR 0x09, CHR '' '']"
    by (simp_all add: is_ws_def)
  have e1: "\<not> is_ws (hd ''0123456789012'') \<and> \<not> is_ws (last ''0123456789012'')"
   and e2: "\<not> is_ws (hd ''iPad Pro'') \<and> \<not> is_ws (last ''iPad Pro'')"
    by (simp_all add: is_ws_def)
  have c1: "''0123456789012'' = [] \<or> (\<not> is_ws (hd ''0123456789012'') \<and> \<not> is_ws (last ''0123456789012''))"
   and c2: "''iPad Pro'' = [] \<or> (\<not> is_ws (hd ''iPad Pro'') \<and> \<not> is_ws (last ''iPad Pro''))"
    using e1 e2 by simp_all
  have d1: "all_digits ''0123456789012''"
    by (simp add: all_digits_def is_digit_def)
  have d2: "\<not> all_digits ''iPad Pro'' \<and> ''iPad Pro'' \<noteq> []"
    by (simp add: all_digits_def is_digit_def)
  have r1: "read_response (sample_fetch (barcode_url plain ''0123456789012''))
            = Some \<lparr>lr_name = Some ''iPad Pro'', lr_brand = Some ''Apple'', lr_description = None,
              lr_category = None, lr_images = None, lr_price = None, lr_website = None,
              lr_specifications = None\<rparr>"
    by (simp add: read_response_def sample_fetch_def sample_response_def barcode_url_def plain_def
         item_result_def str_or_def num_or_def)
  have r2: "read_response (sample_fetch (search_url plain ''iPad Pro'')) = None"
    by (simp add: read_response_def sample_fetch_def search_url_def plain_def)
  note i1 = lookupProduct_paths [OF w2 w1 c1, where fetch = sample_fetch and enc = plain
              and requests = "[]"]
  note i2 = lookupProduct_paths [OF w1 w2 c2, where fetch = sample_fetch and enc = plain
              and requests = "[]"]
  from i1 [THEN conjunct1]
  have t1: "trim ([CHR 0x09, CHR '' ''] @ ''0123456789012'' @ '' '') = ''0123456789012''" .
  from i2 [THEN conjunct1]
  have t2: "trim ('' '' @ ''iPad Pro'' @ [CHR 0x09, CHR '' '']) = ''iPad Pro''" .
  from i1 [THEN conjunct2, THEN conjunct1, THEN mp, OF d1]
  have a: "lookupProduct sample_fetch plain [] ([CHR 0x09, CHR '' ''] @ ''0123456789012'' @ '' '')
     = (Some \<lparr>lr_name = Some ''iPad Pro'', lr_brand = Some ''Apple'', lr_description = None,
              lr_category = None, lr_images = None, lr_price = None, lr_website = None,
              lr_specifications = None\<rparr>,
        [''https://api.upcitemdb.com/prod/trial/lookup?upc=0123456789012''])"
    unfolding r1 by (simp add: barcode_url_def plain_def)
  from i2 [THEN conjunct2, THEN conjunct2, THEN conjunct1, THEN mp, OF d2]
  have b: "lookupProduct sample_fetch plain [] ('' '' @ ''iPad Pro'' @ [CHR 0x09, CHR '' ''])
     = (None,
        [''https://api.upcitemdb.com/prod/trial/search?s=iPad Pro&match_mode=0&type=product''])"
    unfolding r2 by (simp add: search_url_def plain_def)
  from w1 w2 e1 d1 t1 a e2 d2 t2 b show ?thesis
    by blast
qed

end
